theory Spec2Isabelle
  imports Complex_Main "HOL-Library.Sublist"
begin

section \<open>Remindiary: the chat controller (Gemini-backed and Groq-backed variants)\<close>

text \<open>
  The development embeds \<^verbatim>\<open>Backend/controllers/chatController.js\<close>, which holds two
  variants of the same controller: lines 1-234 call Gemini through LangChain, lines
  235-521 call Groq. Functions of the first carry the suffix \<open>_gemini\<close>, functions of
  the second the suffix \<open>_groq\<close>.

  Embedded are \<^verbatim>\<open>handlePrompt\<close>, \<^verbatim>\<open>extractDateFromInput\<close>, \<^verbatim>\<open>extractDate\<close>,
  \<^verbatim>\<open>callGroq\<close>, \<^verbatim>\<open>getEntriesByDate\<close> and \<^verbatim>\<open>generateDiaryEntry\<close>; the two other
  read-only handlers, \<^verbatim>\<open>getDiaryByDate\<close> and \<^verbatim>\<open>getEntriesWithTaskTag\<close>, are left out.
  A handler takes the collaborators, the request and the state, and returns the response
  and the new state; what a \<^verbatim>\<open>try\<close> block throws is a value, which the \<^verbatim>\<open>catch\<close>
  block turns into the response.

  A JavaScript string is modelled as a \<^typ>\<open>string\<close>: a list of 8-bit code units, the
  Latin-1 range of JavaScript's UTF-16 code units.
\<close>

subsection \<open>Regular expressions, as the backtracking matcher of ECMAScript runs them\<close>

text \<open>
  Only the operators that occur in the source's two regular expressions are present:
  a character class, concatenation, alternation, the greedy \<^verbatim>\<open>?\<close>, the greedy \<^verbatim>\<open>*\<close> of a
  character class and the assertion \<^verbatim>\<open>\b\<close>. No capture is read by the source, so a
  group is its content. The classes \<^verbatim>\<open>\d\<close>, \<^verbatim>\<open>\s\<close> and \<^verbatim>\<open>\w\<close> are the same with and
  without the flag \<^verbatim>\<open>i\<close>.
\<close>

datatype rx =
    Cls "char \<Rightarrow> bool"
  | Cat rx rx
  | Alt rx rx
  | Opt rx
  | StarCls "char \<Rightarrow> bool"
  | WordB

definition is_digit :: "char \<Rightarrow> bool" where
  \<comment> \<open>\<^verbatim>\<open>\d\<close>\<close>
  "is_digit c = (48 \<le> (of_char c :: nat) \<and> (of_char c :: nat) \<le> 57)"

definition is_word_char :: "char \<Rightarrow> bool" where
  \<comment> \<open>\<^verbatim>\<open>\w\<close>: \<^verbatim>\<open>[A-Za-z0-9_]\<close>\<close>
  "is_word_char c =
     (let n = (of_char c :: nat)
      in (65 \<le> n \<and> n \<le> 90) \<or> (97 \<le> n \<and> n \<le> 122) \<or> (48 \<le> n \<and> n \<le> 57) \<or> n = 95)"

definition is_space :: "char \<Rightarrow> bool" where
  \<comment> \<open>\<^verbatim>\<open>\s\<close>, also the characters \<^verbatim>\<open>trim\<close> removes: TAB, LF, VT, FF, CR, SP, NBSP\<close>
  "is_space c =
     (let n = (of_char c :: nat) in (9 \<le> n \<and> n \<le> 13) \<or> n = 32 \<or> n = 160)"

definition any_char :: "char \<Rightarrow> bool" where
  \<comment> \<open>\<^verbatim>\<open>[\s\S]\<close>\<close>
  "any_char c = (is_space c \<or> \<not> is_space c)"

definition canonicalize :: "char \<Rightarrow> char" where
  \<comment> \<open>the case folding of the flag \<^verbatim>\<open>i\<close>: \<^verbatim>\<open>toUpperCase\<close> of one code unit. The upper
     case of U+00B5 and of U+00FF lies beyond 8 bits, where no other 8-bit character
     folds to: the two stay as they are\<close>
  "canonicalize c =
     (let n = (of_char c :: nat)
      in if (97 \<le> n \<and> n \<le> 122) \<or> (224 \<le> n \<and> n \<le> 254 \<and> n \<noteq> 247)
         then char_of (n - 32) else c)"

definition lit :: "char \<Rightarrow> rx" where
  \<comment> \<open>a literal character\<close>
  "lit x = Cls (\<lambda>c. c = x)"

definition lit_i :: "char \<Rightarrow> rx" where
  \<comment> \<open>a literal character under the flag \<^verbatim>\<open>i\<close>\<close>
  "lit_i x = Cls (\<lambda>c. canonicalize c = canonicalize x)"

definition at_boundary :: "char option \<Rightarrow> string \<Rightarrow> bool" where
  \<comment> \<open>\<^verbatim>\<open>\b\<close>: exactly one of the characters before and after the position is a word character\<close>
  "at_boundary prev s =
     ((case prev of None \<Rightarrow> False | Some c \<Rightarrow> is_word_char c)
        \<noteq> (case s of [] \<Rightarrow> False | c # _ \<Rightarrow> is_word_char c))"

text \<open>
  \<open>walk r prev s\<close> lists, in the order in which backtracking tries them, the ways \<open>r\<close>
  can match a prefix of \<open>s\<close> when the character before \<open>s\<close> is \<open>prev\<close>: each way is
  the last character consumed and the rest of the input.
\<close>

fun walk :: "rx \<Rightarrow> char option \<Rightarrow> string \<Rightarrow> (char option \<times> string) list" where
  "walk (Cls p) prev [] = []"
| "walk (Cls p) prev (c # s) = (if p c then [(Some c, s)] else [])"
| "walk (Cat a b) prev s = concat (map (\<lambda>(q, t). walk b q t) (walk a prev s))"
| "walk (Alt a b) prev s = walk a prev s @ walk b prev s"
| "walk (Opt a) prev s = walk a prev s @ [(prev, s)]"
| "walk (StarCls p) prev [] = [(prev, [])]"
| "walk (StarCls p) prev (c # s) =
     (if p c then walk (StarCls p) (Some c) s @ [(prev, c # s)] else [(prev, c # s)])"
| "walk WordB prev s = (if at_boundary prev s then [(prev, s)] else [])"

text \<open>
  \<^verbatim>\<open>RegExp.prototype.exec\<close> without the flag \<^verbatim>\<open>g\<close>: the first start position with a
  match, and there the first way of matching; the result is the matched text
  (element 0 of the match array), or \<open>None\<close> for \<^verbatim>\<open>null\<close>.
\<close>

fun exec :: "rx \<Rightarrow> char option \<Rightarrow> string \<Rightarrow> string option" where
  "exec r prev s =
     (case walk r prev s of
        (q, t) # _ \<Rightarrow> Some (take (length s - length t) s)
      | [] \<Rightarrow> (case s of [] \<Rightarrow> None | c # s' \<Rightarrow> exec r (Some c) s'))"

definition match :: "string \<Rightarrow> rx \<Rightarrow> string option" where
  \<comment> \<open>\<^verbatim>\<open>str.match(re)\<close>, element 0\<close>
  "match s r = exec r None s"

definition test :: "rx \<Rightarrow> string \<Rightarrow> bool" where
  \<comment> \<open>\<^verbatim>\<open>re.test(str)\<close>\<close>
  "test r s = (exec r None s \<noteq> None)"

definition json_rx :: rx where
  \<comment> \<open>\<^verbatim>\<open>/\{[\s\S]*\}/\<close>\<close>
  "json_rx = Cat (lit CHR ''{'') (Cat (StarCls any_char) (lit CHR ''}''))"

definition time_body :: rx where
  \<comment> \<open>\<^verbatim>\<open>(\d{1,2})(:\d{2})?\s?(am|pm)?\<close> under the flag \<^verbatim>\<open>i\<close>;
     \<^verbatim>\<open>\d{1,2}\<close> is a digit and a greedy optional digit\<close>
  "time_body =
     Cat (Cat (Cls is_digit) (Opt (Cls is_digit)))
      (Cat (Opt (Cat (lit_i CHR '':'') (Cat (Cls is_digit) (Cls is_digit))))
        (Cat (Opt (Cls is_space))
          (Opt (Alt (Cat (lit_i CHR ''a'') (lit_i CHR ''m''))
                    (Cat (lit_i CHR ''p'') (lit_i CHR ''m''))))))"

definition time_rx :: rx where
  \<comment> \<open>\<^verbatim>\<open>/\b(\d{1,2})(:\d{2})?\s?(am|pm)?\b/i\<close>\<close>
  "time_rx = Cat WordB (Cat time_body WordB)"


subsection \<open>JSON values, JavaScript values and exceptions\<close>

text \<open>
  A value that \<^verbatim>\<open>JSON.parse\<close> returns. A number is the real value of the double; an
  object is the list of its own properties, with distinct keys.
\<close>

datatype json =
    JNull
  | JBool bool
  | JNum real
  | JStr string
  | JArr "json list"
  | JObj "(string \<times> json) list"

type_synonym jsval = "json option"
  \<comment> \<open>\<open>None\<close> is \<^verbatim>\<open>undefined\<close>\<close>

datatype exn = TypeError | SyntaxError | ModelError | CastError | ValidationError

fun get_prop :: "json \<Rightarrow> string \<Rightarrow> exn + jsval" where
  \<comment> \<open>\<^verbatim>\<open>parsed.k\<close> for a key \<open>k\<close> that no prototype defines: reading a property of
     \<^verbatim>\<open>null\<close> throws, a primitive or an array has no such property\<close>
  "get_prop JNull k = Inl TypeError"
| "get_prop (JObj kvs) k = Inr (map_of kvs k)"
| "get_prop (JBool b) k = Inr None"
| "get_prop (JNum n) k = Inr None"
| "get_prop (JStr s) k = Inr None"
| "get_prop (JArr xs) k = Inr None"

fun truthy :: "jsval \<Rightarrow> bool" where
  "truthy None = False"
| "truthy (Some JNull) = False"
| "truthy (Some (JBool b)) = b"
| "truthy (Some (JNum n)) = (n \<noteq> 0)"
| "truthy (Some (JStr s)) = (s \<noteq> [])"
| "truthy (Some (JArr xs)) = True"
| "truthy (Some (JObj kvs)) = True"

definition or_else :: "jsval \<Rightarrow> jsval \<Rightarrow> jsval" where
  \<comment> \<open>\<^verbatim>\<open>a || b\<close>\<close>
  "or_else a b = (if truthy a then a else b)"

definition array_or_empty :: "jsval \<Rightarrow> json list" where
  \<comment> \<open>\<^verbatim>\<open>Array.isArray(v) ? v : []\<close>\<close>
  "array_or_empty v = (case v of Some (JArr xs) \<Rightarrow> xs | _ \<Rightarrow> [])"

definition then_do :: "exn + 'a \<Rightarrow> ('a \<Rightarrow> exn + 'b) \<Rightarrow> exn + 'b" where
  \<comment> \<open>sequencing: a thrown exception skips the rest\<close>
  "then_do r f = (case r of Inl e \<Rightarrow> Inl e | Inr x \<Rightarrow> f x)"

subsection \<open>Strings\<close>

definition nl :: char where
  "nl = CHR 0x0A"

definition dq :: char where
  \<comment> \<open>the double quote\<close>
  "dq = CHR 0x22"

definition sq :: char where
  \<comment> \<open>the single quote\<close>
  "sq = CHR 0x27"

fun join :: "string \<Rightarrow> string list \<Rightarrow> string" where
  \<comment> \<open>\<^verbatim>\<open>xs.join(sep)\<close>\<close>
  "join sep [] = []"
| "join sep [x] = x"
| "join sep (x # y # ys) = x @ sep @ join sep (y # ys)"

definition template :: "string list \<Rightarrow> string" where
  \<comment> \<open>a template literal, given by its lines\<close>
  "template ls = join [nl] ls"

definition trim :: "string \<Rightarrow> string" where
  "trim s = rev (dropWhile is_space (rev (dropWhile is_space s)))"

definition toLowerCase :: "string \<Rightarrow> string" where
  "toLowerCase s =
     map (\<lambda>c. let n = (of_char c :: nat)
               in if (65 \<le> n \<and> n \<le> 90) \<or> (192 \<le> n \<and> n \<le> 222 \<and> n \<noteq> 215)
                  then char_of (n + 32) else c) s"

subsection \<open>Entries, the store and the collaborators\<close>

text \<open>
  The document handed to \<^verbatim>\<open>Entry.create\<close>, one field for each key that either variant
  writes; \<open>None\<close> is a key that is absent or \<^verbatim>\<open>undefined\<close>. A date is its time value:
  milliseconds since the epoch, UTC; for \<open>scheduledFor\<close>, \<open>None\<close> is \<^verbatim>\<open>null\<close>.
\<close>

record entry =
  userId :: string
  Username :: "string option"
  username :: "string option"
  content :: jsval
  summary :: jsval
  type :: jsval
  tasks :: "json list option"
  tags :: "string list"
  scheduledFor :: "int option"
  mood :: jsval
  userInput :: "string option"

text \<open>
  What the controller calls and does not define. The Entry model
  (\<^verbatim>\<open>models/Entry.js\<close>) is not part of the sources: \<open>schema_accepts\<close> says for which
  documents \<^verbatim>\<open>Entry.create\<close> resolves, and the stored record is the document as it was
  handed over. \<open>tzOffset\<close> is local time minus UTC, in milliseconds, taken as fixed.
\<close>

record env =
  JSON_parse :: "string \<Rightarrow> json option"
    \<comment> \<open>\<^verbatim>\<open>JSON.parse\<close>; \<open>None\<close>: it throws a SyntaxError\<close>
  complete :: "string \<Rightarrow> string option"
    \<comment> \<open>the text-completion backend: the content of the reply to a prompt;
       \<open>None\<close>: the call rejects\<close>
  Date_parse :: "string \<Rightarrow> int option"
    \<comment> \<open>\<^verbatim>\<open>new Date(s)\<close>; \<open>None\<close>: Invalid Date\<close>
  parseDate :: "string \<Rightarrow> int option"
    \<comment> \<open>\<^verbatim>\<open>parseDate\<close> of chrono-node; \<open>None\<close>: \<^verbatim>\<open>null\<close>\<close>
  toDateString :: "int \<Rightarrow> string"
  ToString :: "json \<Rightarrow> string"
    \<comment> \<open>the string conversion of a number, an array or an object\<close>
  tzOffset :: int
  now :: int
    \<comment> \<open>\<^verbatim>\<open>new Date()\<close>\<close>
  today :: string
    \<comment> \<open>\<^verbatim>\<open>new Date().toISOString().split("T")[0]\<close>, computed when the module loads\<close>
  sanitizeHtml :: "string \<Rightarrow> string"
  isValidObjectId :: "string \<Rightarrow> bool"
  schema_accepts :: "entry \<Rightarrow> bool"

text \<open>The state: the Entry collection, and the prompts sent to the backend so far.\<close>

record world =
  store :: "entry list"
  sent :: "string list"

record req_user =
  user_id :: string
    \<comment> \<open>\<^verbatim>\<open>req.user.id\<close>; the empty string also stands for a missing id\<close>
  user_name :: "string option"

record prompt_req = req_user +
  errors :: "string list"
    \<comment> \<open>\<^verbatim>\<open>validationResult(req).array()\<close>\<close>
  body_input :: string

record date_req = req_user +
  query_date :: "string option"

record diary_req = req_user +
  body_date :: "string option"
  extraText :: "string option"

datatype response =
    Ok_data entry
    \<comment> \<open>200, \<^verbatim>\<open>{success: true, data}\<close>\<close>
  | Ok_list "entry list"
    \<comment> \<open>200, \<^verbatim>\<open>{success: true, data}\<close>\<close>
  | Ok_diary jsval entry
    \<comment> \<open>200, \<^verbatim>\<open>{success: true, diaryEntry, saved}\<close>\<close>
  | Fail_errors nat "string list"
    \<comment> \<open>status, \<^verbatim>\<open>{success: false, errors}\<close>\<close>
  | Fail nat string
    \<comment> \<open>status, \<^verbatim>\<open>{success: false, error}\<close>\<close>

definition invoke :: "env \<Rightarrow> string \<Rightarrow> world \<Rightarrow> (exn + string) \<times> world" where
  \<comment> \<open>one round-trip to the backend\<close>
  "invoke env p w =
     ((case complete env p of None \<Rightarrow> Inl ModelError | Some c \<Rightarrow> Inr c),
      w\<lparr>sent := sent w @ [p]\<rparr>)"

definition Entry_create :: "env \<Rightarrow> entry \<Rightarrow> world \<Rightarrow> (exn + entry) \<times> world" where
  "Entry_create env doc w =
     (if schema_accepts env doc then (Inr doc, w\<lparr>store := store w @ [doc]\<rparr>)
      else (Inl ValidationError, w))"

definition msPerDay :: int where
  "msPerDay = 86400000"

definition setHours :: "env \<Rightarrow> int \<Rightarrow> int \<Rightarrow> int \<Rightarrow> int \<Rightarrow> int \<Rightarrow> int" where
  \<comment> \<open>\<^verbatim>\<open>d.setHours(h, m, s, ms)\<close>: the time of day is replaced on the local calendar day
     of \<open>t\<close>; the result is the new time value\<close>
  "setHours env t h m s ms =
     (let local = t + tzOffset env;
          day = local div msPerDay
      in day * msPerDay + (h * 3600000 + m * 60000 + s * 1000 + ms) - tzOffset env)"

definition Entry_find_day :: "world \<Rightarrow> int \<Rightarrow> int \<Rightarrow> string \<Rightarrow> entry list" where
  \<comment> \<open>\<^verbatim>\<open>Entry.find({scheduledFor: {$gte: start, $lte: end}, userId})\<close>\<close>
  "Entry_find_day w start end uid =
     filter (\<lambda>e. (case scheduledFor e of None \<Rightarrow> False | Some d \<Rightarrow> start \<le> d \<and> d \<le> end)
                  \<and> userId e = uid) (store w)"


definition str_of :: "env \<Rightarrow> jsval \<Rightarrow> string" where
  \<comment> \<open>the string a template literal puts in place of \<^verbatim>\<open>${v}\<close>\<close>
  "str_of env v =
     (case v of
        None \<Rightarrow> ''undefined''
      | Some JNull \<Rightarrow> ''null''
      | Some (JBool b) \<Rightarrow> (if b then ''true'' else ''false'')
      | Some (JStr s) \<Rightarrow> s
      | Some j \<Rightarrow> ToString env j)"

definition str_of_text :: "string option \<Rightarrow> string" where
  \<comment> \<open>the same for a value that is a string or \<^verbatim>\<open>undefined\<close>\<close>
  "str_of_text v = (case v of None \<Rightarrow> ''undefined'' | Some s \<Rightarrow> s)"

definition missing_date :: string where
  \<comment> \<open>the message of the response to \<^verbatim>\<open>!date\<close>: the date is absent or the empty string\<close>
  "missing_date = ''Missing '' @ [sq] @ ''date'' @ [sq]"

subsection \<open>The Gemini-backed variant (lines 1-234)\<close>

definition classifyPrompt_gemini :: "string \<Rightarrow> string" where
  \<open>classifyPrompt_gemini input = template [
     '''',
     ''You are a helpful assistant. Analyze this input:'',
     [dq] @ input @ [dq],
     '''',
     ''1. Classify the type as one of: "diary", "task", "note", or "reminder".'',
     ''2. Extract a short summary of the content.'',
     ''3. If there are any action items, list them.'',
     ''4. Return a JSON like:'',
     ''{'',
     ''  "type": "...",'',
     ''  "summary": "...",'',
     ''  "tasks": ["..."]'',
     ''}'',
     '''']\<close>

definition datePrompt :: "string \<Rightarrow> string \<Rightarrow> string" where
  \<comment> \<open>the prompt template of \<^verbatim>\<open>extractDateFromInput\<close>, formatted\<close>
  \<open>datePrompt tod input = template [
     '''',
     ''Today is: '' @ tod,
     ''Input: '' @ [dq] @ input @ [dq],
     ''Extract a specific date in the format YYYY-MM-DD. If no clear date, return "null".'',
     ''Output:'',
     '''']\<close>

definition extractStructured :: "env \<Rightarrow> string \<Rightarrow> exn + json" where
  \<comment> \<open>lines 56-57 and 177-178: \<^verbatim>\<open>content.match(/\{[\s\S]*\}/)\<close>, then
     \<^verbatim>\<open>JSON.parse(jsonMatch[0])\<close>; indexing \<^verbatim>\<open>null\<close> throws\<close>
  "extractStructured env reply =
     (case match reply json_rx of
        None \<Rightarrow> Inl TypeError
      | Some m \<Rightarrow> (case JSON_parse env m of None \<Rightarrow> Inl SyntaxError | Some v \<Rightarrow> Inr v))"

definition fallback_heuristic :: "env \<Rightarrow> string \<Rightarrow> int option" where
  \<comment> \<open>lines 98-99\<close>
  "fallback_heuristic env text =
     (let hasTime = test time_rx text in if hasTime then Some (now env) else None)"

definition extractDateFromInput :: "env \<Rightarrow> string \<Rightarrow> world \<Rightarrow> int option \<times> world" where
  "extractDateFromInput env text w =
     (case invoke env (datePrompt (today env) text) w of
        (Inl err, w1) \<Rightarrow> (None, w1)
      | (Inr reply, w1) \<Rightarrow>
          (let raw = trim reply
           in if toLowerCase raw \<noteq> ''null''
              then (case Date_parse env raw of
                      Some parsedDate \<Rightarrow> (Some parsedDate, w1)
                    | None \<Rightarrow> (fallback_heuristic env text, w1))
              else (fallback_heuristic env text, w1)))"

definition classifiedEntry_gemini ::
    "prompt_req \<Rightarrow> string \<Rightarrow> json \<Rightarrow> int option \<Rightarrow> exn + entry" where
  \<comment> \<open>the object literal of lines 61-70\<close>
  "classifiedEntry_gemini req input parsed scheduledDate =
     then_do (get_prop parsed ''summary'') (\<lambda>s.
     then_do (get_prop parsed ''type'') (\<lambda>t.
     then_do (get_prop parsed ''tasks'') (\<lambda>ts.
       Inr \<lparr>userId = user_id req,
            Username = user_name req,
            username = None,
            content = Some (JStr input),
            summary = s,
            type = or_else t (Some (JStr ''note'')),
            tasks = Some (array_or_empty ts),
            tags = [],
            scheduledFor = scheduledDate,
            mood = None,
            userInput = None\<rparr>)))"

definition classify_gemini ::
    "env \<Rightarrow> prompt_req \<Rightarrow> string \<Rightarrow> world \<Rightarrow> (exn + entry) \<times> world" where
  \<comment> \<open>the \<^verbatim>\<open>try\<close> block of \<^verbatim>\<open>handlePrompt\<close>, lines 39-72\<close>
  "classify_gemini env req input w =
     (case invoke env (classifyPrompt_gemini input) w of
        (Inl err, w1) \<Rightarrow> (Inl err, w1)
      | (Inr reply, w1) \<Rightarrow>
          (case extractStructured env reply of
             Inl err \<Rightarrow> (Inl err, w1)
           | Inr parsed \<Rightarrow>
               (case extractDateFromInput env input w1 of
                  (scheduledDate, w2) \<Rightarrow>
                    (case classifiedEntry_gemini req input parsed scheduledDate of
                       Inl err \<Rightarrow> (Inl err, w2)
                     | Inr doc \<Rightarrow> Entry_create env doc w2))))"

definition handlePrompt_gemini :: "env \<Rightarrow> prompt_req \<Rightarrow> world \<Rightarrow> response \<times> world" where
  "handlePrompt_gemini env req w =
     (if errors req \<noteq> [] then (Fail_errors 400 (errors req), w)
      else let input = sanitizeHtml env (body_input req)
           in if \<not> isValidObjectId env (user_id req) then (Fail 400 ''Invalid user ID'', w)
              else (case classify_gemini env req input w of
                      (Inr entry, w') \<Rightarrow> (Ok_data entry, w')
                    | (Inl err, w') \<Rightarrow> (Fail 500 ''Failed to process prompt'', w')))"

definition day_bounds_gemini :: "env \<Rightarrow> int \<Rightarrow> int \<times> int" where
  \<comment> \<open>lines 114-116: both calls of \<^verbatim>\<open>setHours\<close> change the one \<^verbatim>\<open>selectedDate\<close>\<close>
  "day_bounds_gemini env selectedDate =
     (let start = setHours env selectedDate 0 0 0 0;
          end = setHours env start 23 59 59 999
      in (start, end))"

definition getEntriesByDate_gemini :: "env \<Rightarrow> date_req \<Rightarrow> world \<Rightarrow> response \<times> world" where
  \<comment> \<open>a query with an Invalid Date is rejected by the store (a cast error)\<close>
  "getEntriesByDate_gemini env req w =
     (case query_date req of
        None \<Rightarrow> (Fail 400 missing_date, w)
      | Some date \<Rightarrow>
          if date = [] then (Fail 400 missing_date, w)
          else (case Date_parse env date of
                  None \<Rightarrow> (Fail 500 ''Failed to fetch entries'', w)
                | Some selectedDate \<Rightarrow>
                    (case day_bounds_gemini env selectedDate of
                       (start, end) \<Rightarrow>
                         (Ok_list (Entry_find_day w start end (user_id req)), w))))"

definition bullet_gemini :: string where
  \<comment> \<open>the code unit U+2022, which has no 8-bit character: its UTF-8 bytes stand for it\<close>
  "bullet_gemini = [CHR 0xE2, CHR 0x80, CHR 0xA2]"

definition entrySummaries :: "env \<Rightarrow> string \<Rightarrow> entry list \<Rightarrow> string" where
  \<comment> \<open>lines 149 and 406-408; the empty string is falsy\<close>
  "entrySummaries env bullet entries =
     (let joined = join [nl] (map (\<lambda>e. bullet @ '' '' @ str_of env (type e) @ '': ''
                                          @ str_of env (summary e)) entries)
      in if joined \<noteq> [] then joined else ''No entries.'')"

definition diaryPrompt_gemini :: "string \<Rightarrow> string \<Rightarrow> string option \<Rightarrow> string" where
  \<open>diaryPrompt_gemini dateString summaries extra = template [
     '''',
     ''You are a diary writing assistant.'',
     '''',
     ''Date: '' @ dateString,
     '''',
     ''Here are the notes, tasks, and reminders saved for the day:'',
     summaries,
     '''',
     ''The user also added:'',
     [dq] @ str_of_text extra @ [dq],
     '''',
     ''Write a personal diary entry summarizing the day. Be reflective, warm, and concise.'',
     ''Also extract the user'' @ [sq] @ ''s overall mood from the context using one word (e.g., happy, sad, tired, excited, relaxed).'',
     ''Return JSON like:'',
     ''{'',
     ''  "diaryText": "...",'',
     ''  "mood": "..."'',
     ''}'',
     '''']\<close>

definition diaryEntry :: "diary_req \<Rightarrow> json \<Rightarrow> int \<Rightarrow> exn + (jsval \<times> entry)" where
  \<comment> \<open>the object literal of lines 180-190 and 431-441, with \<^verbatim>\<open>parsed.diaryText\<close>\<close>
  "diaryEntry req parsed d =
     then_do (get_prop parsed ''diaryText'') (\<lambda>diaryText.
     then_do (get_prop parsed ''mood'') (\<lambda>m.
       Inr (diaryText,
            \<lparr>userId = user_id req,
             Username = None,
             username = user_name req,
             content = diaryText,
             summary = diaryText,
             type = Some (JStr ''diary''),
             tasks = None,
             tags = [''auto-generated'', ''diary''],
             scheduledFor = Some d,
             mood = m,
             userInput = extraText req\<rparr>)))"

definition synthesize_gemini ::
    "env \<Rightarrow> diary_req \<Rightarrow> string \<Rightarrow> world \<Rightarrow> (exn + (jsval \<times> entry)) \<times> world" where
  \<comment> \<open>the \<^verbatim>\<open>try\<close> block of \<^verbatim>\<open>generateDiaryEntry\<close>, lines 139-192\<close>
  "synthesize_gemini env req date w =
     (case Date_parse env date of
        None \<Rightarrow> (Inl CastError, w)
      | Some d \<Rightarrow>
          (case day_bounds_gemini env d of
             (start, end) \<Rightarrow>
               (let entries = Entry_find_day w start end (user_id req);
                    prompt = diaryPrompt_gemini (toDateString env d)
                               (entrySummaries env bullet_gemini entries) (extraText req)
                in case invoke env prompt w of
                     (Inl err, w1) \<Rightarrow> (Inl err, w1)
                   | (Inr reply, w1) \<Rightarrow>
                       (case extractStructured env reply of
                          Inl err \<Rightarrow> (Inl err, w1)
                        | Inr parsed \<Rightarrow>
                            (case diaryEntry req parsed d of
                               Inl err \<Rightarrow> (Inl err, w1)
                             | Inr (diaryText, doc) \<Rightarrow>
                                 (case Entry_create env doc w1 of
                                    (Inl err, w2) \<Rightarrow> (Inl err, w2)
                                  | (Inr savedEntry, w2) \<Rightarrow>
                                      (Inr (diaryText, savedEntry), w2)))))))"

definition generateDiaryEntry_gemini ::
    "env \<Rightarrow> diary_req \<Rightarrow> world \<Rightarrow> response \<times> world" where
  "generateDiaryEntry_gemini env req w =
     (if user_id req = [] then (Fail 401 ''Unauthorized'', w)
      else (case body_date req of
              None \<Rightarrow> (Fail 400 missing_date, w)
            | Some date \<Rightarrow>
                if date = [] then (Fail 400 missing_date, w)
                else (case synthesize_gemini env req date w of
                        (Inr (diaryText, savedEntry), w') \<Rightarrow>
                          (Ok_diary diaryText savedEntry, w')
                      | (Inl err, w') \<Rightarrow>
                          (Fail 500 ''Failed to generate diary entry'', w'))))"

subsection \<open>The Groq-backed variant (lines 235-521)\<close>

definition extractDate :: "env \<Rightarrow> string \<Rightarrow> int option" where
  \<comment> \<open>\<^verbatim>\<open>parseDate(text) || null\<close>: a Date is truthy\<close>
  "extractDate env text = parseDate env text"

definition callGroq :: "env \<Rightarrow> string \<Rightarrow> world \<Rightarrow> (exn + json) \<times> world" where
  "callGroq env prompt w =
     (case invoke env prompt w of
        (Inl err, w1) \<Rightarrow> (Inl err, w1)
      | (Inr reply, w1) \<Rightarrow>
          ((case JSON_parse env reply of None \<Rightarrow> Inl SyntaxError | Some v \<Rightarrow> Inr v), w1))"

definition classifyPrompt_groq :: "string \<Rightarrow> string" where
  \<open>classifyPrompt_groq input = template [
     '''',
     ''Analyze this user input:'',
     '''',
     [dq] @ input @ [dq],
     '''',
     ''Classify the content and extract tasks.'',
     '''',
     ''Return JSON:'',
     '''',
     ''{'',
     ''"type":"diary | task | note | reminder",'',
     ''"summary":"short summary",'',
     ''"tasks":["task1","task2"]'',
     ''}'',
     '''']\<close>

definition classifiedEntry_groq ::
    "prompt_req \<Rightarrow> string \<Rightarrow> json \<Rightarrow> int option \<Rightarrow> exn + entry" where
  \<comment> \<open>the object literal of lines 312-321\<close>
  "classifiedEntry_groq req input parsed scheduledDate =
     then_do (get_prop parsed ''summary'') (\<lambda>s.
     then_do (get_prop parsed ''type'') (\<lambda>t.
     then_do (get_prop parsed ''tasks'') (\<lambda>ts.
       Inr \<lparr>userId = user_id req,
            Username = None,
            username = user_name req,
            content = Some (JStr input),
            summary = or_else s (Some (JStr '''')),
            type = or_else t (Some (JStr ''note'')),
            tasks = Some (array_or_empty ts),
            tags = [],
            scheduledFor = scheduledDate,
            mood = None,
            userInput = None\<rparr>)))"

definition classify_groq ::
    "env \<Rightarrow> prompt_req \<Rightarrow> string \<Rightarrow> world \<Rightarrow> (exn + entry) \<times> world" where
  \<comment> \<open>the \<^verbatim>\<open>try\<close> block of \<^verbatim>\<open>handlePrompt\<close>, lines 291-326\<close>
  "classify_groq env req input w =
     (let scheduledDate = extractDate env input
      in case callGroq env (classifyPrompt_groq input) w of
           (Inl err, w1) \<Rightarrow> (Inl err, w1)
         | (Inr parsed, w1) \<Rightarrow>
             (case classifiedEntry_groq req input parsed scheduledDate of
                Inl err \<Rightarrow> (Inl err, w1)
              | Inr doc \<Rightarrow> Entry_create env doc w1))"

definition handlePrompt_groq :: "env \<Rightarrow> prompt_req \<Rightarrow> world \<Rightarrow> response \<times> world" where
  "handlePrompt_groq env req w =
     (if errors req \<noteq> [] then (Fail_errors 400 (errors req), w)
      else let input = sanitizeHtml env (body_input req)
           in if \<not> isValidObjectId env (user_id req) then (Fail 400 ''Invalid user ID'', w)
              else (case classify_groq env req input w of
                      (Inr entry, w') \<Rightarrow> (Ok_data entry, w')
                    | (Inl err, w') \<Rightarrow> (Fail 500 ''Failed to process prompt'', w')))"

definition day_bounds_groq :: "env \<Rightarrow> int \<Rightarrow> int \<times> int" where
  \<comment> \<open>lines 350-354: \<^verbatim>\<open>start\<close> and \<^verbatim>\<open>end\<close> are two dates made from the same string\<close>
  "day_bounds_groq env d = (setHours env d 0 0 0 0, setHours env d 23 59 59 999)"

definition getEntriesByDate_groq :: "env \<Rightarrow> date_req \<Rightarrow> world \<Rightarrow> response \<times> world" where
  "getEntriesByDate_groq env req w =
     (case query_date req of
        None \<Rightarrow> (Fail 400 missing_date, w)
      | Some date \<Rightarrow>
          if date = [] then (Fail 400 missing_date, w)
          else (case Date_parse env date of
                  None \<Rightarrow> (Fail 500 ''Failed to fetch entries'', w)
                | Some d \<Rightarrow>
                    (case day_bounds_groq env d of
                       (start, end) \<Rightarrow>
                         (Ok_list (Entry_find_day w start end (user_id req)), w))))"

definition bullet_groq :: string where
  \<comment> \<open>the three code units U+00E2 U+20AC U+00A2 of the source; the second has no 8-bit
     character and 0x80 stands for it\<close>
  "bullet_groq = [CHR 0xE2, CHR 0x80, CHR 0xA2]"

definition diaryPrompt_groq :: "string \<Rightarrow> string \<Rightarrow> string option \<Rightarrow> string" where
  \<open>diaryPrompt_groq dateString summaries extra = template [
     '''',
     ''You are a diary writing assistant.'',
     '''',
     ''Date: '' @ dateString,
     '''',
     ''User notes and tasks:'',
     summaries,
     '''',
     ''Extra context:'',
     [dq] @ str_of_text extra @ [dq],
     '''',
     ''Return JSON:'',
     '''',
     ''{'',
     ''"diaryText":"A short reflective diary entry",'',
     ''"mood":"one word mood"'',
     ''}'',
     '''']\<close>

definition synthesize_groq ::
    "env \<Rightarrow> diary_req \<Rightarrow> string \<Rightarrow> world \<Rightarrow> (exn + (jsval \<times> entry)) \<times> world" where
  \<comment> \<open>the \<^verbatim>\<open>try\<close> block of \<^verbatim>\<open>generateDiaryEntry\<close>, lines 394-447\<close>
  "synthesize_groq env req date w =
     (case Date_parse env date of
        None \<Rightarrow> (Inl CastError, w)
      | Some d \<Rightarrow>
          (case day_bounds_groq env d of
             (start, end) \<Rightarrow>
               (let entries = Entry_find_day w start end (user_id req);
                    prompt = diaryPrompt_groq (toDateString env d)
                               (entrySummaries env bullet_groq entries) (extraText req)
                in case callGroq env prompt w of
                     (Inl err, w1) \<Rightarrow> (Inl err, w1)
                   | (Inr parsed, w1) \<Rightarrow>
                       (case diaryEntry req parsed d of
                          Inl err \<Rightarrow> (Inl err, w1)
                        | Inr (diaryText, doc) \<Rightarrow>
                            (case Entry_create env doc w1 of
                               (Inl err, w2) \<Rightarrow> (Inl err, w2)
                             | (Inr savedEntry, w2) \<Rightarrow>
                                 (Inr (diaryText, savedEntry), w2))))))"

definition generateDiaryEntry_groq ::
    "env \<Rightarrow> diary_req \<Rightarrow> world \<Rightarrow> response \<times> world" where
  "generateDiaryEntry_groq env req w =
     (if user_id req = [] then (Fail 401 ''Unauthorized'', w)
      else (case body_date req of
              None \<Rightarrow> (Fail 400 missing_date, w)
            | Some date \<Rightarrow>
                if date = [] then (Fail 400 missing_date, w)
                else (case synthesize_groq env req date w of
                        (Inr (diaryText, savedEntry), w') \<Rightarrow>
                          (Ok_diary diaryText savedEntry, w')
                      | (Inl err, w') \<Rightarrow>
                          (Fail 500 ''Failed to generate diary entry'', w'))))"


subsection \<open>The specification's words\<close>

text \<open>
  The time-of-day pattern as the specification describes it, with the hour as the code
  takes it (one or two digits): the hour, optional minutes after a colon, an optional
  blank and an optional am/pm marker in either case, between two word boundaries.
\<close>

definition last_of :: "char option \<Rightarrow> string \<Rightarrow> char option" where
  \<comment> \<open>the character before a position: the last one of \<open>m\<close>, or \<open>p\<close> when \<open>m\<close> is empty\<close>
  "last_of p m = (if m = [] then p else Some (last m))"

definition hour_digits :: "string \<Rightarrow> bool" where
  "hour_digits h = ((length h = 1 \<or> length h = 2) \<and> list_all is_digit h)"

definition minutes_part :: "string \<Rightarrow> bool" where
  "minutes_part m = (\<exists>a b. m = [CHR '':'', a, b] \<and> is_digit a \<and> is_digit b)"

definition space_part :: "string \<Rightarrow> bool" where
  "space_part sp = (\<exists>c. sp = [c] \<and> is_space c)"

definition ampm_part :: "string \<Rightarrow> bool" where
  "ampm_part ap =
     (ap \<in> {''am'', ''aM'', ''Am'', ''AM'', ''pm'', ''pM'', ''Pm'', ''PM''})"

definition time_of_day :: "string \<Rightarrow> bool" where
  "time_of_day m =
     (\<exists>h mi sp ap. m = h @ mi @ sp @ ap \<and> hour_digits h \<and> (mi = [] \<or> minutes_part mi)
        \<and> (sp = [] \<or> space_part sp) \<and> (ap = [] \<or> ampm_part ap))"

definition contains_time_of_day :: "string \<Rightarrow> bool" where
  "contains_time_of_day text =
     (\<exists>pre m post. text = pre @ m @ post \<and> time_of_day m
        \<and> at_boundary (last_of None pre) (m @ post)
        \<and> at_boundary (last_of None (pre @ m)) post)"

text \<open>
  \<open>describes r L\<close>: the matcher \<open>r\<close> consumes exactly the texts of \<open>L\<close>, whatever
  stands before and after.
\<close>

definition describes :: "rx \<Rightarrow> string set \<Rightarrow> bool" where
  "describes r L \<longleftrightarrow>
     (\<forall>p s q t. (q, t) \<in> set (walk r p s) \<longleftrightarrow> (\<exists>m\<in>L. s = m @ t \<and> q = last_of p m))"

text \<open>
  The pattern with the hour in the range 1-12, read as generously as the words allow:
  anywhere in the text, with no condition on what stands around it.
\<close>

definition hour_value :: "string \<Rightarrow> nat" where
  "hour_value h = foldl (\<lambda>n c. 10 * n + (of_char c - 48)) 0 h"

definition hour_1_12 :: "string \<Rightarrow> bool" where
  "hour_1_12 h = (hour_digits h \<and> 1 \<le> hour_value h \<and> hour_value h \<le> 12)"

definition contains_hour_1_12_pattern :: "string \<Rightarrow> bool" where
  "contains_hour_1_12_pattern text =
     (\<exists>pre h mi ap post. text = pre @ h @ mi @ ap @ post \<and> hour_1_12 h
        \<and> (mi = [] \<or> minutes_part mi) \<and> (ap = [] \<or> ampm_part ap))"

text \<open>
  A brace-delimited text, and a reply that holds a JSON object: a brace-delimited part
  of it that \<^verbatim>\<open>JSON.parse\<close> accepts.
\<close>

definition brace_delimited :: "string \<Rightarrow> bool" where
  "brace_delimited s = (2 \<le> length s \<and> hd s = CHR ''{'' \<and> last s = CHR ''}'')"

definition contains_json_object :: "env \<Rightarrow> string \<Rightarrow> bool" where
  "contains_json_object env reply =
     (\<exists>obj\<in>set (sublists reply). brace_delimited obj \<and> JSON_parse env obj \<noteq> None)"

text \<open>The fields of an Entry that the specification's data model lists.\<close>

definition spec_fields ::
    "entry \<Rightarrow> string \<times> jsval \<times> jsval \<times> jsval \<times> json list option \<times> string list
              \<times> int option \<times> jsval \<times> string option" where
  "spec_fields e =
     (userId e, content e, summary e, type e, tasks e, tags e, scheduledFor e, mood e,
      userInput e)"

fun observable :: "response \<Rightarrow> (nat \<times> string) + (string \<times> jsval \<times> jsval \<times> jsval
      \<times> json list option \<times> string list \<times> int option \<times> jsval \<times> string option) list" where
  \<comment> \<open>a response as the caller sees it: the failure, or the fields of the records\<close>
  "observable (Ok_data e) = Inr [spec_fields e]"
| "observable (Ok_list es) = Inr (map spec_fields es)"
| "observable (Ok_diary t e) = Inr [spec_fields e]"
| "observable (Fail_errors n es) = Inl (n, concat es)"
| "observable (Fail n msg) = Inl (n, msg)"

definition swap_name_keys :: "entry \<Rightarrow> entry" where
  \<comment> \<open>the same document with the user's name under the other of the two keys\<close>
  "swap_name_keys e = e\<lparr>Username := username e, username := Username e\<rparr>"

definition summary_given :: "json \<Rightarrow> bool" where
  \<comment> \<open>the parsed object has a summary that is truthy or the empty string\<close>
  "summary_given parsed =
     (case get_prop parsed ''summary'' of
        Inl err \<Rightarrow> True
      | Inr s \<Rightarrow> truthy s \<or> s = Some (JStr []))"

subsection \<open>Example collaborators\<close>

text \<open>
  The replies, requests and collaborators that the examples below run on.
  \<open>demo_parse\<close> gives the value of \<^verbatim>\<open>JSON.parse\<close> at the three JSON texts of the
  examples; every other text that the examples hand to it is not JSON, and there it
  throws.
\<close>

definition reply_task :: string where
  \<open>reply_task = ''{"type":"task","summary":"Buy milk and call mom","tasks":["Buy milk","Call mom"]}''\<close>

definition parsed_task :: json where
  "parsed_task =
     JObj [(''type'', JStr ''task''), (''summary'', JStr ''Buy milk and call mom''),
           (''tasks'', JArr [JStr ''Buy milk'', JStr ''Call mom''])]"

definition reply_bare :: string where
  \<open>reply_bare = ''{"type":"task"}''\<close>

definition parsed_bare :: json where
  "parsed_bare = JObj [(''type'', JStr ''task'')]"

definition reply_diary :: string where
  \<open>reply_diary = ''{"diaryText":"A calm day.","mood":"relaxed"}''\<close>

definition parsed_diary :: json where
  "parsed_diary = JObj [(''diaryText'', JStr ''A calm day.''), (''mood'', JStr ''relaxed'')]"

definition demo_parse :: "string \<Rightarrow> json option" where
  "demo_parse =
     map_of [(reply_task, parsed_task), (reply_bare, parsed_bare), (reply_diary, parsed_diary)]"

definition demo_backend :: "string option \<Rightarrow> string option \<Rightarrow> string \<Rightarrow> string \<Rightarrow> string option" where
  \<comment> \<open>a backend that answers \<open>d\<close> to the date prompt for \<open>text\<close> and \<open>c\<close> to any other
     prompt\<close>
  "demo_backend c d text = (\<lambda>p. if p = datePrompt ''2024-05-09'' text then d else c)"

definition demo_env :: env where
  \<comment> \<open>a server on UTC on 2024-05-09, with a backend that rejects every call\<close>
  "demo_env =
     \<lparr>JSON_parse = demo_parse,
      complete = (\<lambda>p. None),
      Date_parse = map_of [(''2024-05-10'', 1715299200000), (''2024-05-11'', 1715385600000)],
      parseDate = (\<lambda>text. None),
      toDateString = (\<lambda>t. if t = 1715299200000 then ''Fri May 10 2024'' else ''Sat May 11 2024''),
      ToString = (\<lambda>j. ''[object Object]''),
      tzOffset = 0,
      now = 1715263200000,
      today = ''2024-05-09'',
      sanitizeHtml = (\<lambda>s. s),
      isValidObjectId = (\<lambda>s. length s = 24),
      schema_accepts = (\<lambda>doc. True)\<rparr>"

definition demo_prompt_req :: "string \<Rightarrow> prompt_req" where
  "demo_prompt_req text =
     \<lparr>user_id = ''507f1f77bcf86cd799439011'', user_name = Some ''Asha'',
      errors = [], body_input = text\<rparr>"

definition demo_diary_req :: "string option \<Rightarrow> diary_req" where
  "demo_diary_req extra =
     \<lparr>user_id = ''507f1f77bcf86cd799439011'', user_name = Some ''Asha'',
      body_date = Some ''2024-05-10'', extraText = extra\<rparr>"

definition demo_date_req :: "string \<Rightarrow> date_req" where
  "demo_date_req d =
     \<lparr>user_id = ''507f1f77bcf86cd799439011'', user_name = Some ''Asha'', query_date = Some d\<rparr>"

definition empty_world :: world where
  "empty_world = \<lparr>store = [], sent = []\<rparr>"


definition reply_prose :: string where
  "reply_prose = ''Here is the JSON: '' @ reply_task"

definition reply_stray_brace :: string where
  "reply_stray_brace = reply_task @ '' Done :-}''"

definition env_prose :: env where
  "env_prose = demo_env\<lparr>complete := (\<lambda>p. Some reply_prose)\<rparr>"

definition env_null_date :: env where
  "env_null_date = demo_env\<lparr>complete := (\<lambda>p. Some ''null'')\<rparr>"

definition env_refusal :: env where
  \<comment> \<open>the backend answers every prompt with a sentence\<close>
  "env_refusal = demo_env\<lparr>complete := (\<lambda>p. Some ''I cannot help with that.'')\<rparr>"

definition env_date_down :: env where
  \<comment> \<open>the backend classifies, and rejects the date prompt\<close>
  "env_date_down = demo_env\<lparr>complete := demo_backend (Some reply_task) None ''call mom''\<rparr>"

definition doc_call_mom :: entry where
  "doc_call_mom =
     \<lparr>userId = ''507f1f77bcf86cd799439011'', Username = Some ''Asha'', username = None,
      content = Some (JStr ''call mom''), summary = Some (JStr ''Buy milk and call mom''),
      type = Some (JStr ''task''), tasks = Some [JStr ''Buy milk'', JStr ''Call mom''],
      tags = [], scheduledFor = None, mood = None, userInput = None\<rparr>"

definition env_diary :: env where
  \<comment> \<open>the backend answers every prompt with a diary object\<close>
  "env_diary = demo_env\<lparr>complete := (\<lambda>p. Some reply_diary)\<rparr>"

definition diary_saved :: "string option \<Rightarrow> entry" where
  "diary_saved extra =
     \<lparr>userId = ''507f1f77bcf86cd799439011'', Username = None, username = Some ''Asha'',
      content = Some (JStr ''A calm day.''), summary = Some (JStr ''A calm day.''),
      type = Some (JStr ''diary''), tasks = None, tags = [''auto-generated'', ''diary''],
      scheduledFor = Some 1715299200000, mood = Some (JStr ''relaxed''), userInput = extra\<rparr>"

definition env_bare :: env where
  \<comment> \<open>the backend classifies with an object that has only a type, and answers "null" to
     the date prompt\<close>
  "env_bare = demo_env\<lparr>complete := demo_backend (Some reply_bare) (Some ''null'') ''call mom''\<rparr>"

definition env_west :: env where
  \<comment> \<open>a server five hours west of UTC\<close>
  "env_west = demo_env\<lparr>tzOffset := - 18000000\<rparr>"

definition entry_afternoon :: entry where
  \<comment> \<open>scheduled for 2024-05-10T14:00:00 on the clock of \<open>env_west\<close>, 19:00:00 UTC\<close>
  "entry_afternoon =
     \<lparr>userId = ''507f1f77bcf86cd799439011'', Username = None, username = Some ''Asha'',
      content = Some (JStr ''dentist''), summary = Some (JStr ''Dentist''),
      type = Some (JStr ''reminder''), tasks = Some [], tags = [],
      scheduledFor = Some 1715367600000, mood = None, userInput = None\<rparr>"

definition world_afternoon :: world where
  "world_afternoon = \<lparr>store = [entry_afternoon], sent = []\<rparr>"

definition env_date_given :: env where
  \<comment> \<open>the backend classifies, and answers the date prompt with a date\<close>
  "env_date_given =
     demo_env\<lparr>complete := demo_backend (Some reply_task) (Some ''2024-05-10'') ''call mom''\<rparr>"



section \<open>Properties of the matcher\<close>

declare exec.simps [simp del]

lemma last_of_simps [simp]: "last_of p [] = p" "last_of p (m @ [c]) = Some c" "last_of p (c # m) = last_of (Some c) m"
  "last_of (last_of p x) y = last_of p (x @ y)"
  by (auto simp: last_of_def)

lemma walk_suffix: "(q, t) \<in> set (walk r p s) \<Longrightarrow> \<exists>m. s = m @ t \<and> q = last_of p m"
proof (induction r p s arbitrary: q t rule: walk.induct)
  case (3 a b prev s)
  then show ?case apply (auto) 
    by (metis append.assoc last_of_simps(4))
next
  case (7 p prev c s)
  then show ?case apply (auto split: if_splits)
    by (metis append_Cons last_of_simps(3))
qed (auto split: if_splits)

lemma exec_iff: "exec r p s \<noteq> None \<longleftrightarrow> (\<exists>pre suf. s = pre @ suf \<and> walk r (last_of p pre) suf \<noteq> [])"
proof (induction r p s rule: exec.induct)
  case (1 r prev s)
  show ?case
  proof (cases "walk r prev s")
    case Nil
    show ?thesis
    proof (cases s)
      case Nil': Nil
      then show ?thesis using Nil by (subst exec.simps) auto
    next
      case (Cons c s')
      have "exec r prev s = exec r (Some c) s'" using Nil Cons by (subst exec.simps) simp
      moreover have "(\<exists>pre suf. s = pre @ suf \<and> walk r (last_of prev pre) suf \<noteq> []) \<longleftrightarrow>
          (\<exists>pre suf. s' = pre @ suf \<and> walk r (last_of (Some c) pre) suf \<noteq> [])" (is "?L \<longleftrightarrow> ?R")
      proof
        assume ?L
        then obtain pre suf where ps: "s = pre @ suf" "walk r (last_of prev pre) suf \<noteq> []" by blast
        with Nil have "pre \<noteq> []" by auto
        then obtain pre' where "pre = c # pre'" using ps(1) Cons by (cases pre) auto
        with ps Cons show ?R by auto
      next
        assume ?R
        then obtain pre suf where ps: "s' = pre @ suf" "walk r (last_of (Some c) pre) suf \<noteq> []" by blast
        then have "s = (c # pre) @ suf \<and> walk r (last_of prev (c # pre)) suf \<noteq> []" using Cons by simp
        then show ?L by blast
      qed
      ultimately show ?thesis using 1 Nil Cons by simp
    qed
  next
    case (Cons a list)
    then have "exec r prev s \<noteq> None" by (subst exec.simps) (auto split: prod.splits)
    moreover have "s = [] @ s \<and> walk r (last_of prev []) s \<noteq> []" using Cons by simp
    ultimately show ?thesis by blast
  qed
qed

lemma describes_Cls: "describes (Cls P) {[c] |c. P c}"
  unfolding describes_def
proof (intro allI)
  fix p s q t
  show "((q, t) \<in> set (walk (Cls P) p s)) = (\<exists>m\<in>{[c] |c. P c}. s = m @ t \<and> q = last_of p m)"
    by (cases s) auto
qed

lemma describes_Cat:
  assumes "describes a A" "describes b B"
  shows "describes (Cat a b) {x @ y |x y. x \<in> A \<and> y \<in> B}"
  unfolding describes_def
proof (intro allI iffI)
  fix p s q t
  assume "(q, t) \<in> set (walk (Cat a b) p s)"
  then obtain q1 t1 where 1: "(q1, t1) \<in> set (walk a p s)" and 2: "(q, t) \<in> set (walk b q1 t1)"
    by auto
  from 1 assms(1) obtain x where x: "x \<in> A" "s = x @ t1" "q1 = last_of p x"
    unfolding describes_def by blast
  from 2 assms(2) obtain y where y: "y \<in> B" "t1 = y @ t" "q = last_of q1 y"
    unfolding describes_def by blast
  have "s = (x @ y) @ t \<and> q = last_of p (x @ y)" using x y by simp
  then show "\<exists>m\<in>{x @ y |x y. x \<in> A \<and> y \<in> B}. s = m @ t \<and> q = last_of p m"
    using x(1) y(1) by blast
next
  fix p s q t
  assume "\<exists>m\<in>{x @ y |x y. x \<in> A \<and> y \<in> B}. s = m @ t \<and> q = last_of p m"
  then obtain x y where xy: "x \<in> A" "y \<in> B" "s = (x @ y) @ t" "q = last_of p (x @ y)" by blast
  have 1: "(last_of p x, y @ t) \<in> set (walk a p s)"
    using assms(1) xy(1,3) unfolding describes_def by auto
  have 2: "(q, t) \<in> set (walk b (last_of p x) (y @ t))"
    using assms(2) xy(2,4) unfolding describes_def by auto
  show "(q, t) \<in> set (walk (Cat a b) p s)" using 1 2 by force
qed

lemma describes_Alt:
  assumes "describes a A" "describes b B"
  shows "describes (Alt a b) (A \<union> B)"
  using assms unfolding describes_def by (simp add: bex_Un)

lemma describes_Opt:
  assumes "describes a A"
  shows "describes (Opt a) (insert [] A)"
  using assms unfolding describes_def by auto

lemma of_char_canonicalize:
  "(of_char (canonicalize c) :: nat) =
     (let n = of_char c in
      if (97 \<le> n \<and> n \<le> 122) \<or> (224 \<le> n \<and> n \<le> 254 \<and> n \<noteq> 247) then n - 32 else n)"
proof -
  have "(of_char c :: nat) < 256" by simp
  then have "(of_char c :: nat) - 32 < 256" by arith
  then have "((of_char c :: nat) - 32) mod 256 = of_char c - 32" by (rule mod_less)
  then show ?thesis by (simp add: canonicalize_def Let_def)
qed

lemma char_eq_nat: "c = d \<longleftrightarrow> (of_char c :: nat) = of_char d"
  by simp

lemma canon_colon: "canonicalize c = canonicalize CHR '':'' \<longleftrightarrow> c = CHR '':''"
  by (simp add: char_eq_nat [of "canonicalize _"] char_eq_nat [of c] of_char_canonicalize Let_def) arith

lemma canon_a: "canonicalize c = canonicalize CHR ''a'' \<longleftrightarrow> c = CHR ''a'' \<or> c = CHR ''A''"
  by (simp add: char_eq_nat [of "canonicalize _"] char_eq_nat [of c] of_char_canonicalize Let_def) arith

lemma canon_m: "canonicalize c = canonicalize CHR ''m'' \<longleftrightarrow> c = CHR ''m'' \<or> c = CHR ''M''"
  by (simp add: char_eq_nat [of "canonicalize _"] char_eq_nat [of c] of_char_canonicalize Let_def) arith

lemma canon_p: "canonicalize c = canonicalize CHR ''p'' \<longleftrightarrow> c = CHR ''p'' \<or> c = CHR ''P''"
  by (simp add: char_eq_nat [of "canonicalize _"] char_eq_nat [of c] of_char_canonicalize Let_def) arith

lemma describes_eq: "describes r L \<Longrightarrow> L = L' \<Longrightarrow> describes r L'"
  by simp

lemma cat_single:
  "{x @ y |x y. x \<in> {[c] |c. P c} \<and> y \<in> B} = {c # y |c y. P c \<and> y \<in> B}" (is "?L = ?R")
proof (intro set_eqI iffI)
  fix z assume "z \<in> ?L" then show "z \<in> ?R" by auto
next
  fix z assume "z \<in> ?R"
  then obtain c y where "z = [c] @ y" "P c" "y \<in> B" by auto
  then show "z \<in> ?L" by blast
qed

lemma describes_hour:
  "describes (Cat (Cls is_digit) (Opt (Cls is_digit))) {h. hour_digits h}"
proof (rule describes_eq [OF describes_Cat [OF describes_Cls describes_Opt [OF describes_Cls]]])
  show "{x @ y |x y. x \<in> {[c] |c. is_digit c} \<and> y \<in> insert [] {[c] |c. is_digit c}}
          = {h. hour_digits h}" (is "?A = ?B")
  proof (intro set_eqI iffI)
    fix h assume "h \<in> ?A" then show "h \<in> ?B" unfolding cat_single by (auto simp: hour_digits_def)
  next
    fix h assume "h \<in> ?B"
    then consider a where "h = [a]" "is_digit a" | a b where "h = [a, b]" "is_digit a" "is_digit b"
      by (auto simp: hour_digits_def length_Suc_conv numeral_2_eq_2)
    then show "h \<in> ?A" unfolding cat_single by cases auto
  qed
qed

lemma describes_minutes:
  "describes (Opt (Cat (lit_i CHR '':'') (Cat (Cls is_digit) (Cls is_digit))))
     (insert [] {m. minutes_part m})"
proof -
  have "describes (Cat (lit_i CHR '':'') (Cat (Cls is_digit) (Cls is_digit))) {m. minutes_part m}"
    unfolding lit_i_def
  proof (rule describes_eq [OF describes_Cat [OF describes_Cls describes_Cat [OF describes_Cls describes_Cls]]])
    show "{x @ y |x y. x \<in> {[c] |c. canonicalize c = canonicalize CHR '':''} \<and>
           y \<in> {x @ y |x y. x \<in> {[c] |c. is_digit c} \<and> y \<in> {[c] |c. is_digit c}}}
          = {m. minutes_part m}"
      unfolding cat_single canon_colon
    proof (intro set_eqI iffI)
      fix m
      assume "m \<in> {c # y |c y. c = CHR '':'' \<and> y \<in> {c # y |c y. is_digit c \<and> y \<in> {[c] |c. is_digit c}}}"
      then obtain y where y: "m = CHR '':'' # y" "y \<in> {c # y |c y. is_digit c \<and> y \<in> {[c] |c. is_digit c}}"
        by blast
      from y(2) obtain a z where z: "y = a # z" "is_digit a" "z \<in> {[c] |c. is_digit c}" by blast
      from z(3) obtain b where b: "z = [b]" "is_digit b" by blast
      have "m = [CHR '':'', a, b]" unfolding y(1) z(1) b(1) ..
      then have "minutes_part m" unfolding minutes_part_def using z(2) b(2) by blast
      then show "m \<in> {m. minutes_part m}" ..
    next
      fix m
      assume "m \<in> {m. minutes_part m}"
      then obtain a b where m: "m = [CHR '':'', a, b]" "is_digit a" "is_digit b"
        unfolding minutes_part_def by blast
      show "m \<in> {c # y |c y. c = CHR '':'' \<and> y \<in> {c # y |c y. is_digit c \<and> y \<in> {[c] |c. is_digit c}}}"
        unfolding m(1) using m(2,3) by simp
    qed
  qed
  then show ?thesis by (rule describes_Opt)
qed

lemma describes_space: "describes (Opt (Cls is_space)) (insert [] {sp. space_part sp})"
proof -
  have "describes (Cls is_space) {sp. space_part sp}"
    by (rule describes_eq [OF describes_Cls]) (auto simp: space_part_def)
  then show ?thesis by (rule describes_Opt)
qed

lemma describes_ampm:
  "describes (Opt (Alt (Cat (lit_i CHR ''a'') (lit_i CHR ''m''))
                       (Cat (lit_i CHR ''p'') (lit_i CHR ''m''))))
     (insert [] {ap. ampm_part ap})"
proof -
  have "describes (Alt (Cat (lit_i CHR ''a'') (lit_i CHR ''m''))
                       (Cat (lit_i CHR ''p'') (lit_i CHR ''m''))) {ap. ampm_part ap}"
    unfolding lit_i_def
  proof (rule describes_eq [OF describes_Alt [OF describes_Cat [OF describes_Cls describes_Cls]
            describes_Cat [OF describes_Cls describes_Cls]]])
    show "{x @ y |x y. x \<in> {[c] |c. canonicalize c = canonicalize CHR ''a''} \<and>
             y \<in> {[c] |c. canonicalize c = canonicalize CHR ''m''}} \<union>
          {x @ y |x y. x \<in> {[c] |c. canonicalize c = canonicalize CHR ''p''} \<and>
             y \<in> {[c] |c. canonicalize c = canonicalize CHR ''m''}}
          = {ap. ampm_part ap}"
    proof -
      have a: "{c # y |c y. (c = CHR ''a'' \<or> c = CHR ''A'') \<and> y \<in> {[c] |c. c = CHR ''m'' \<or> c = CHR ''M''}}
                = {''am'', ''aM'', ''Am'', ''AM''}" by blast
      have p: "{c # y |c y. (c = CHR ''p'' \<or> c = CHR ''P'') \<and> y \<in> {[c] |c. c = CHR ''m'' \<or> c = CHR ''M''}}
                = {''pm'', ''pM'', ''Pm'', ''PM''}" by blast
      show ?thesis unfolding cat_single canon_a canon_m canon_p ampm_part_def a p by blast
    qed
  qed
  then show ?thesis by (rule describes_Opt)
qed

lemma describes_time_body: "describes time_body {m. time_of_day m}"
  unfolding time_body_def
proof (rule describes_eq [OF describes_Cat [OF describes_hour
          describes_Cat [OF describes_minutes describes_Cat [OF describes_space describes_ampm]]]])
  show "{x @ y |x y. x \<in> {h. hour_digits h} \<and>
          y \<in> {x @ y |x y. x \<in> insert [] {m. minutes_part m} \<and>
            y \<in> {x @ y |x y. x \<in> insert [] {sp. space_part sp} \<and>
              y \<in> insert [] {ap. ampm_part ap}}}}
        = {m. time_of_day m}" (is "?A = ?B")
  proof (intro set_eqI iffI)
    fix m assume "m \<in> ?A"
    then obtain h mi sp ap where "m = h @ mi @ sp @ ap" "hour_digits h"
      "mi = [] \<or> minutes_part mi" "sp = [] \<or> space_part sp" "ap = [] \<or> ampm_part ap"
      by blast
    then show "m \<in> ?B" unfolding time_of_day_def by blast
  next
    fix m assume "m \<in> ?B"
    then obtain h mi sp ap where "m = h @ mi @ sp @ ap" "hour_digits h"
      "mi = [] \<or> minutes_part mi" "sp = [] \<or> space_part sp" "ap = [] \<or> ampm_part ap"
      unfolding time_of_day_def by blast
    then show "m \<in> ?A" by blast
  qed
qed

lemma walk_time_rx:
  "walk time_rx p s \<noteq> [] \<longleftrightarrow>
     (\<exists>m t. s = m @ t \<and> time_of_day m \<and> at_boundary p s \<and> at_boundary (last_of p m) t)"
proof -
  have "walk time_rx p s \<noteq> [] \<longleftrightarrow> at_boundary p s \<and>
          (\<exists>x\<in>set (walk time_body p s). at_boundary (fst x) (snd x))"
    by (auto simp: time_rx_def split_def)
  also have "\<dots> \<longleftrightarrow> at_boundary p s \<and> (\<exists>q t. (q, t) \<in> set (walk time_body p s) \<and> at_boundary q t)"
    by (simp add: Bex_def)
  also have "\<dots> \<longleftrightarrow> at_boundary p s \<and> (\<exists>m t. s = m @ t \<and> time_of_day m \<and> at_boundary (last_of p m) t)"
    using describes_time_body unfolding describes_def by auto
  finally show ?thesis by blast
qed

lemma test_time_rx: "test time_rx text \<longleftrightarrow> contains_time_of_day text"
proof
  assume "test time_rx text"
  then obtain pre suf where 1: "text = pre @ suf" and 2: "walk time_rx (last_of None pre) suf \<noteq> []"
    unfolding test_def exec_iff by blast
  from 2 obtain m t where "suf = m @ t" "time_of_day m" "at_boundary (last_of None pre) suf"
      "at_boundary (last_of (last_of None pre) m) t"
    unfolding walk_time_rx by blast
  with 1 show "contains_time_of_day text"
    unfolding contains_time_of_day_def by (intro exI [of _ pre] exI [of _ m] exI [of _ t]) simp
next
  assume "contains_time_of_day text"
  then obtain pre m post where 1: "text = pre @ m @ post" "time_of_day m"
      "at_boundary (last_of None pre) (m @ post)" "at_boundary (last_of None (pre @ m)) post"
    unfolding contains_time_of_day_def by blast
  then have "walk time_rx (last_of None pre) (m @ post) \<noteq> []"
    unfolding walk_time_rx by (intro exI [of _ m] exI [of _ post]) simp
  with 1(1) show "test time_rx text" unfolding test_def exec_iff by blast
qed

lemma walk_star_lit_Cons:
  "walk (Cat (StarCls any_char) (lit x)) p (c # s) =
     walk (Cat (StarCls any_char) (lit x)) (Some c) s @ (if c = x then [(Some c, s)] else [])"
  by (simp add: any_char_def lit_def)

lemma walk_star_lit_Nil: "walk (Cat (StarCls any_char) (lit x)) p [] = []"
  by (simp add: lit_def)

lemma walk_star_lit_absent:
  "x \<notin> set s \<Longrightarrow> walk (Cat (StarCls any_char) (lit x)) p s = []"
proof (induction s arbitrary: p)
  case Nil
  show ?case by (rule walk_star_lit_Nil)
next
  case (Cons c s)
  then have "c \<noteq> x" "x \<notin> set s" by auto
  then show ?case unfolding walk_star_lit_Cons Cons.IH [OF \<open>x \<notin> set s\<close>] by simp
qed

lemma walk_star_lit_last:
  "x \<notin> set post \<Longrightarrow>
     \<exists>rest. walk (Cat (StarCls any_char) (lit x)) p (mid @ x # post) = (Some x, post) # rest"
proof (induction mid arbitrary: p)
  case Nil
  then show ?case unfolding append_Nil walk_star_lit_Cons walk_star_lit_absent [OF Nil] by simp
next
  case (Cons c mid)
  from Cons.IH [OF Cons.prems, of "Some c"] obtain rest where
    "walk (Cat (StarCls any_char) (lit x)) (Some c) (mid @ x # post) = (Some x, post) # rest" ..
  then show ?case unfolding append_Cons walk_star_lit_Cons by simp
qed

lemma walk_star_lit_member:
  "(q, t) \<in> set (walk (Cat (StarCls any_char) (lit x)) p s) \<Longrightarrow> \<exists>mid. s = mid @ x # t"
proof (induction s arbitrary: p)
  case Nil
  then show ?case by (simp only: walk_star_lit_Nil) simp
next
  case (Cons c s)
  from Cons.prems have "(q, t) \<in> set (walk (Cat (StarCls any_char) (lit x)) (Some c) s) \<or> (c = x \<and> t = s)"
    by (simp only: walk_star_lit_Cons) (auto split: if_splits)
  then show ?case
  proof
    assume "(q, t) \<in> set (walk (Cat (StarCls any_char) (lit x)) (Some c) s)"
    from Cons.IH [OF this] obtain mid where "s = mid @ x # t" ..
    then have "c # s = (c # mid) @ x # t" by simp
    then show ?thesis ..
  next
    assume "c = x \<and> t = s"
    then have "c # s = [] @ x # t" by simp
    then show ?thesis ..
  qed
qed

lemma walk_json_rx_Cons:
  "walk json_rx p (c # s) =
     (if c = CHR ''{'' then walk (Cat (StarCls any_char) (lit CHR ''}'')) (Some c) s else [])"
  unfolding json_rx_def by (simp add: lit_def)

lemma walk_json_rx_Nil: "walk json_rx p [] = []"
  unfolding json_rx_def by (simp add: lit_def)

lemma walk_json_rx_member:
  assumes "(q, t) \<in> set (walk json_rx p s)"
  shows "\<exists>mid. s = CHR ''{'' # mid @ CHR ''}'' # t"
proof (cases s)
  case Nil
  with assms show ?thesis by (simp add: walk_json_rx_Nil)
next
  case (Cons c s')
  with assms have c: "c = CHR ''{''"
    and "(q, t) \<in> set (walk (Cat (StarCls any_char) (lit CHR ''}'')) (Some c) s')"
    by (auto simp: walk_json_rx_Cons split: if_splits)
  from walk_star_lit_member [OF this(2)] obtain mid where "s' = mid @ CHR ''}'' # t" ..
  with Cons c show ?thesis by simp
qed

lemma exec_Some:
  "exec r p s = Some m \<Longrightarrow>
     \<exists>pre q t. s = pre @ m @ t \<and> (q, t) \<in> set (walk r (last_of p pre) (m @ t))"
proof (induction r p s rule: exec.induct)
  case (1 r prev s)
  show ?case
  proof (cases "walk r prev s")
    case Nil
    show ?thesis
    proof (cases s)
      case Nil': Nil
      with Nil 1(2) show ?thesis by (simp add: exec.simps)
    next
      case (Cons c s')
      with Nil 1(2) have "exec r (Some c) s' = Some m" by (simp add: exec.simps)
      from 1(1) [OF Nil Cons this] obtain pre q t where
        "s' = pre @ m @ t" "(q, t) \<in> set (walk r (last_of (Some c) pre) (m @ t))" by blast
      then have "s = (c # pre) @ m @ t \<and> (q, t) \<in> set (walk r (last_of prev (c # pre)) (m @ t))"
        using Cons by simp
      then show ?thesis by blast
    qed
  next
    case (Cons qt rest)
    obtain q t where qt: "qt = (q, t)" by (cases qt)
    have mem: "(q, t) \<in> set (walk r prev s)" using Cons qt by simp
    from walk_suffix [OF mem] obtain m' where m': "s = m' @ t" by blast
    have "m = take (length s - length t) s" using 1(2) Cons qt by (simp add: exec.simps)
    with m' have "m = m'" by simp
    with m' mem have "s = [] @ m @ t \<and> (q, t) \<in> set (walk r (last_of prev []) (m @ t))" by simp
    then show ?thesis by blast
  qed
qed

lemma match_json_rx_Some:
  assumes "match reply json_rx = Some m"
  shows "\<exists>pre mid post. reply = pre @ m @ post \<and> m = CHR ''{'' # mid @ ''}''"
proof -
  from exec_Some [OF assms [unfolded match_def]] obtain pre q t where
    1: "reply = pre @ m @ t" and 2: "(q, t) \<in> set (walk json_rx (last_of None pre) (m @ t))"
    by blast
  from walk_json_rx_member [OF 2] obtain mid where "m @ t = CHR ''{'' # mid @ CHR ''}'' # t" ..
  then have "m = CHR ''{'' # mid @ ''}''" by simp
  with 1 show ?thesis by blast
qed

lemma exec_json_rx_span:
  assumes "CHR ''{'' \<notin> set pre" "CHR ''}'' \<notin> set post"
  shows "exec json_rx p (pre @ CHR ''{'' # mid @ CHR ''}'' # post) = Some (CHR ''{'' # mid @ ''}'')"
  using assms(1)
proof (induction pre arbitrary: p)
  case Nil
  from walk_star_lit_last [OF assms(2), of "Some CHR ''{''" mid] obtain rest where
    "walk (Cat (StarCls any_char) (lit CHR ''}'')) (Some CHR ''{'') (mid @ CHR ''}'' # post)
       = (Some CHR ''}'', post) # rest" ..
  then show ?case by (simp add: exec.simps [of json_rx] walk_json_rx_Cons)
next
  case (Cons c pre)
  then have "c \<noteq> CHR ''{''" "CHR ''{'' \<notin> set pre" by auto
  with Cons.IH [of "Some c"] show ?case by (simp add: exec.simps [of json_rx p] walk_json_rx_Cons)
qed

lemma match_json_rx_span:
  "CHR ''{'' \<notin> set pre \<Longrightarrow> CHR ''}'' \<notin> set post \<Longrightarrow>
     match (pre @ CHR ''{'' # mid @ CHR ''}'' # post) json_rx = Some (CHR ''{'' # mid @ ''}'')"
  unfolding match_def by (rule exec_json_rx_span)

lemma match_json_rx_None:
  "CHR ''{'' \<notin> set reply \<or> CHR ''}'' \<notin> set reply \<Longrightarrow> match reply json_rx = None"
proof (rule ccontr)
  assume a: "CHR ''{'' \<notin> set reply \<or> CHR ''}'' \<notin> set reply"
  assume "match reply json_rx \<noteq> None"
  then obtain m where "match reply json_rx = Some m" by blast
  from match_json_rx_Some [OF this] obtain pre mid post where
    "reply = pre @ m @ post" "m = CHR ''{'' # mid @ ''}''" by blast
  then have "CHR ''{'' \<in> set reply \<and> CHR ''}'' \<in> set reply" by simp
  with a show False by blast
qed


section \<open>Structured response extraction\<close>

text \<open>
  Claim C1, as the code has it. A reply that holds one brace-delimited object, with no
  opening brace in the prose before it and no closing brace in the prose after it: the
  extraction step of the Gemini-backed variant (in \<^verbatim>\<open>handlePrompt\<close> and in
  \<^verbatim>\<open>generateDiaryEntry\<close>) returns what \<^verbatim>\<open>JSON.parse\<close> makes of exactly that object.
  The extraction step of the Groq-backed variant, \<^verbatim>\<open>callGroq\<close>, hands the whole reply to
  \<^verbatim>\<open>JSON.parse\<close>: it returns the object when the reply is the JSON text and nothing
  else.
\<close>
theorem C1_extraction:
  assumes "CHR ''{'' \<notin> set pre" and "CHR ''}'' \<notin> set post"
  shows "extractStructured env (pre @ CHR ''{'' # mid @ CHR ''}'' # post)
           = (case JSON_parse env (CHR ''{'' # mid @ ''}'') of
                None \<Rightarrow> Inl SyntaxError | Some v \<Rightarrow> Inr v)
         \<and> fst (callGroq env p w)
           = (case complete env p of
                None \<Rightarrow> Inl ModelError
              | Some reply \<Rightarrow> (case JSON_parse env reply of
                                None \<Rightarrow> Inl SyntaxError | Some v \<Rightarrow> Inr v))"
proof
  show "extractStructured env (pre @ CHR ''{'' # mid @ CHR ''}'' # post)
           = (case JSON_parse env (CHR ''{'' # mid @ ''}'') of
                None \<Rightarrow> Inl SyntaxError | Some v \<Rightarrow> Inr v)"
    unfolding extractStructured_def match_json_rx_span [OF assms] by simp
next
  show "fst (callGroq env p w)
           = (case complete env p of
                None \<Rightarrow> Inl ModelError
              | Some reply \<Rightarrow> (case JSON_parse env reply of
                                None \<Rightarrow> Inl SyntaxError | Some v \<Rightarrow> Inr v))"
    by (simp add: callGroq_def invoke_def split: option.splits)
qed

text \<open>
  Claim C1, at a reply with prose on both sides: the first variant recovers the object,
  \<^verbatim>\<open>callGroq\<close> throws on a reply with prose.
\<close>
theorem C1_extraction_witness:
  \<open>CHR ''{'' \<notin> set ''Sure! '' \<and> CHR ''}'' \<notin> set '' Hope it helps.''
   \<and> extractStructured env_prose ''Sure! {"type":"task"} Hope it helps.'' = Inr parsed_bare
   \<and> fst (callGroq env_prose (classifyPrompt_groq ''call mom'') empty_world) = Inl SyntaxError\<close>
proof -
  have 1: "CHR ''{'' \<notin> set ''Sure! ''" and 2: "CHR ''}'' \<notin> set '' Hope it helps.''" by simp_all
  have p: "JSON_parse env_prose reply_prose = None" by code_simp
  have q: \<open>JSON_parse env_prose ''{"type":"task"}'' = Some parsed_bare\<close> by code_simp
  have c: "complete env_prose (classifyPrompt_groq ''call mom'') = Some reply_prose"
    by (simp add: env_prose_def)
  from C1_extraction [OF 1 2, where env = env_prose and mid = \<open>''"type":"task"''\<close>
      and p = "classifyPrompt_groq ''call mom''" and w = empty_world]
  show ?thesis using 1 2 p q c by simp
qed

text \<open>
  Claim C1 as stated fails. The reply \<open>reply_prose\<close> is a sentence followed by one
  JSON object: \<^verbatim>\<open>callGroq\<close> throws a SyntaxError instead of returning the object. The
  reply \<open>reply_stray_brace\<close> is one JSON object followed by prose that ends in a closing
  brace: the span of the regular expression runs to that last brace, and the first
  variant throws as well.
\<close>
theorem C1_counterexample:
  "fst (callGroq env_prose (classifyPrompt_groq ''call mom'') empty_world) = Inl SyntaxError
   \<and> reply_prose = ''Here is the JSON: '' @ reply_task
   \<and> JSON_parse env_prose reply_task = Some parsed_task
   \<and> extractStructured demo_env reply_stray_brace = Inl SyntaxError
   \<and> reply_stray_brace = reply_task @ '' Done :-}''
   \<and> JSON_parse demo_env reply_task = Some parsed_task"
  by code_simp

section \<open>The fallback heuristic of the temporal resolver\<close>

lemma hour_1_12_nonzero_digit:
  assumes "hour_1_12 h"
  shows "\<exists>c\<in>set h. c \<noteq> CHR ''0''"
proof -
  from assms have hd: "hour_digits h" and v: "1 \<le> hour_value h" by (simp_all add: hour_1_12_def)
  from hd consider a where "h = [a]" | a b where "h = [a, b]"
    by (auto simp: hour_digits_def length_Suc_conv numeral_2_eq_2)
  then show ?thesis
  proof cases
    case 1
    with v show ?thesis by (auto simp: hour_value_def)
  next
    case 2
    with v show ?thesis by (auto simp: hour_value_def)
  qed
qed

lemma hour_1_12_pattern_nonzero_digit:
  assumes "contains_hour_1_12_pattern text"
  shows "\<exists>c\<in>set text. c \<noteq> CHR ''0'' \<and> is_digit c"
proof -
  from assms obtain pre h mi ap post where t: "text = pre @ h @ mi @ ap @ post" and h: "hour_1_12 h"
    unfolding contains_hour_1_12_pattern_def by blast
  from hour_1_12_nonzero_digit [OF h] obtain c where c: "c \<in> set h" "c \<noteq> CHR ''0''" by blast
  from h have "list_all is_digit h" by (simp add: hour_1_12_def hour_digits_def)
  with c(1) have "is_digit c" by (simp add: list_all_iff)
  with c t show ?thesis by auto
qed

lemma extractDateFromInput_fallback:
  assumes "complete env (datePrompt (today env) text) = Some reply"
    and "toLowerCase (trim reply) = ''null'' \<or> Date_parse env (trim reply) = None"
  shows "fst (extractDateFromInput env text w) = fallback_heuristic env text"
  using assms by (auto simp: extractDateFromInput_def invoke_def Let_def)

text \<open>
  Claim C3, as the code has it. When the date reply is "null" in any case, or is no valid
  date, \<^verbatim>\<open>extractDateFromInput\<close> returns the current moment if and only if the text
  holds, between two word boundaries, one or two digits (any value from 0 to 99), then
  optional minutes after a colon, an optional blank and an optional am/pm marker;
  otherwise it returns \<^verbatim>\<open>null\<close>.
\<close>
theorem C3_fallback:
  assumes "complete env (datePrompt (today env) text) = Some reply"
    and "toLowerCase (trim reply) = ''null'' \<or> Date_parse env (trim reply) = None"
  shows "fst (extractDateFromInput env text w)
           = (if contains_time_of_day text then Some (now env) else None)"
  unfolding extractDateFromInput_fallback [OF assms] fallback_heuristic_def Let_def test_time_rx ..

text \<open>
  Claim C3, at "meet at 3pm" (the current moment) and at "just a thought" (no date), with a
  backend that answers "null".
\<close>
theorem C3_fallback_witness:
  "complete env_null_date (datePrompt (today env_null_date) ''meet at 3pm'') = Some ''null''
   \<and> (toLowerCase (trim ''null'') = ''null'' \<or> Date_parse env_null_date (trim ''null'') = None)
   \<and> fst (extractDateFromInput env_null_date ''meet at 3pm'' empty_world) = Some 1715263200000
   \<and> fst (extractDateFromInput env_null_date ''just a thought'' empty_world) = None"
proof -
  have 1: "complete env_null_date (datePrompt (today env_null_date) ''meet at 3pm'') = Some ''null''"
    and z1: "complete env_null_date (datePrompt (today env_null_date) ''just a thought'') = Some ''null''"
    by (simp_all add: env_null_date_def)
  have 2: "toLowerCase (trim ''null'') = ''null'' \<or> Date_parse env_null_date (trim ''null'') = None"
    by code_simp
  have 3: "contains_time_of_day ''meet at 3pm''" unfolding test_time_rx [symmetric] by code_simp
  have 4: "\<not> contains_time_of_day ''just a thought''" unfolding test_time_rx [symmetric] by code_simp
  have 5: "now env_null_date = 1715263200000" by (simp add: env_null_date_def demo_env_def)
  from C3_fallback [OF 1 2, of empty_world] C3_fallback [OF z1 2, of empty_world]
  show ?thesis using 1 2 3 4 5 by simp
qed

text \<open>
  Claim C3 as stated fails: "room 0" holds no hour from 1 to 12, with or without minutes
  and marker, and the fallback still returns the current moment, since the pattern of the
  code takes any one or two digits.
\<close>
theorem C3_counterexample:
  "fst (extractDateFromInput env_null_date ''room 0'' empty_world) = Some (now env_null_date)
   \<and> \<not> contains_hour_1_12_pattern ''room 0''"
proof
  show "fst (extractDateFromInput env_null_date ''room 0'' empty_world) = Some (now env_null_date)"
    by code_simp
  show "\<not> contains_hour_1_12_pattern ''room 0''"
  proof
    assume "contains_hour_1_12_pattern ''room 0''"
    from hour_1_12_pattern_nonzero_digit [OF this] show False by (auto simp: is_digit_def)
  qed
qed

section \<open>Failures of the classification call\<close>

lemma extractDateFromInput_fst:
  "fst (extractDateFromInput env text w) = fst (extractDateFromInput env text w')"
  by (simp add: extractDateFromInput_def invoke_def Let_def split: option.splits)

lemma extractDateFromInput_store:
  "store (snd (extractDateFromInput env text w)) = store w"
  by (simp add: extractDateFromInput_def invoke_def Let_def split: option.splits)


lemma handlePrompt_gemini_malformed:
  assumes "errors req = []" and "isValidObjectId env (user_id req)"
    and "complete env (classifyPrompt_gemini (sanitizeHtml env (body_input req))) = Some reply"
    and "extractStructured env reply = Inl err"
  shows "handlePrompt_gemini env req w =
           (Fail 500 ''Failed to process prompt'',
            w\<lparr>sent := sent w @ [classifyPrompt_gemini (sanitizeHtml env (body_input req))]\<rparr>)"
  using assms by (simp add: handlePrompt_gemini_def classify_gemini_def invoke_def)








lemma no_json_object_malformed:
  assumes "\<not> contains_json_object env reply"
  shows "\<exists>err. extractStructured env reply = Inl err"
proof (cases "match reply json_rx")
  case None
  then show ?thesis by (simp add: extractStructured_def)
next
  case (Some m)
  from match_json_rx_Some [OF Some] obtain pre mid post where
    r: "reply = pre @ m @ post" and m: "m = CHR ''{'' # mid @ ''}''" by blast
  from r have "m \<in> set (sublists reply)" by simp
  moreover from m have "brace_delimited m" by (simp add: brace_delimited_def)
  ultimately have "JSON_parse env m = None" using assms unfolding contains_json_object_def by blast
  with Some show ?thesis by (simp add: extractStructured_def)
qed

lemma contains_json_object_brace:
  assumes "contains_json_object env reply"
  shows "CHR ''{'' \<in> set reply"
proof -
  from assms obtain obj where o: "sublist obj reply" "brace_delimited obj"
    unfolding contains_json_object_def by auto
  from o(2) have "obj \<noteq> []" "hd obj = CHR ''{''" by (auto simp: brace_delimited_def)
  then have "CHR ''{'' \<in> set obj" using hd_in_set by force
  moreover from o(1) obtain ps ss where "reply = ps @ obj @ ss" unfolding sublist_def by blast
  ultimately show ?thesis by simp
qed

text \<open>
  Claim C6. When no brace-delimited part of the reply is accepted by \<^verbatim>\<open>JSON.parse\<close>,
  \<^verbatim>\<open>handlePrompt\<close> of the Gemini-backed variant returns the response 500 "Failed to
  process prompt": the exception of the extraction step ends in the \<^verbatim>\<open>catch\<close> block,
  and nothing but the prompt sent has changed.
\<close>
theorem C6_malformed_is_handled:
  assumes "errors req = []" and "isValidObjectId env (user_id req)"
    and "complete env (classifyPrompt_gemini (sanitizeHtml env (body_input req))) = Some reply"
    and "\<not> contains_json_object env reply"
  shows "handlePrompt_gemini env req w =
           (Fail 500 ''Failed to process prompt'',
            w\<lparr>sent := sent w @ [classifyPrompt_gemini (sanitizeHtml env (body_input req))]\<rparr>)"
proof -
  from no_json_object_malformed [OF assms(4)] obtain err where "extractStructured env reply = Inl err" ..
  from handlePrompt_gemini_malformed [OF assms(1-3) this] show ?thesis .
qed

text \<open>Claim C6, at a reply that is a sentence with no brace.\<close>
theorem C6_malformed_is_handled_witness:
  "errors (demo_prompt_req ''call mom'') = []
   \<and> isValidObjectId env_refusal (user_id (demo_prompt_req ''call mom''))
   \<and> complete env_refusal (classifyPrompt_gemini
        (sanitizeHtml env_refusal (body_input (demo_prompt_req ''call mom''))))
        = Some ''I cannot help with that.''
   \<and> \<not> contains_json_object env_refusal ''I cannot help with that.''
   \<and> fst (handlePrompt_gemini env_refusal (demo_prompt_req ''call mom'') empty_world)
        = Fail 500 ''Failed to process prompt''
   \<and> store (snd (handlePrompt_gemini env_refusal (demo_prompt_req ''call mom'') empty_world)) = []"
proof -
  have 1: "errors (demo_prompt_req ''call mom'') = []" by (simp add: demo_prompt_req_def)
  have 2: "isValidObjectId env_refusal (user_id (demo_prompt_req ''call mom''))" by code_simp
  have 3: "complete env_refusal (classifyPrompt_gemini
        (sanitizeHtml env_refusal (body_input (demo_prompt_req ''call mom''))))
        = Some ''I cannot help with that.''"
    by (simp add: env_refusal_def)
  have 4: "\<not> contains_json_object env_refusal ''I cannot help with that.''"
  proof
    assume "contains_json_object env_refusal ''I cannot help with that.''"
    from contains_json_object_brace [OF this] show False by simp
  qed
  from C6_malformed_is_handled [OF 1 2 3 4, of empty_world]
  show ?thesis using 1 2 3 4 by (simp add: empty_world_def)
qed

section \<open>A failed date round-trip\<close>

lemma extractDateFromInput_backend_error:
  assumes "complete env (datePrompt (today env) text) = None"
  shows "extractDateFromInput env text w = (None, w\<lparr>sent := sent w @ [datePrompt (today env) text]\<rparr>)"
  using assms by (simp add: extractDateFromInput_def invoke_def)

text \<open>
  Claim C7. When the classification reply yields an object and the backend rejects the
  date prompt, \<^verbatim>\<open>extractDateFromInput\<close> returns \<^verbatim>\<open>null\<close>, and \<^verbatim>\<open>handlePrompt\<close>
  of the Gemini-backed variant stores the Entry, with no \<open>scheduledFor\<close>, and answers
  with it.
\<close>
theorem C7_date_failure_absorbed:
  assumes "errors req = []" and "isValidObjectId env (user_id req)"
    and "input = sanitizeHtml env (body_input req)"
    and "complete env (classifyPrompt_gemini input) = Some reply"
    and "extractStructured env reply = Inr parsed"
    and "complete env (datePrompt (today env) input) = None"
    and "classifiedEntry_gemini req input parsed None = Inr doc"
    and "schema_accepts env doc"
  shows "fst (extractDateFromInput env input w) = None
         \<and> fst (handlePrompt_gemini env req w) = Ok_data doc
         \<and> scheduledFor doc = None
         \<and> store (snd (handlePrompt_gemini env req w)) = store w @ [doc]"
proof -
  have d: "\<And>w1. extractDateFromInput env input w1
             = (None, w1\<lparr>sent := sent w1 @ [datePrompt (today env) input]\<rparr>)"
    by (rule extractDateFromInput_backend_error [OF assms(6)])
  have h: "handlePrompt_gemini env req w =
             (Ok_data doc, w\<lparr>sent := sent w @ [classifyPrompt_gemini input, datePrompt (today env) input],
                              store := store w @ [doc]\<rparr>)"
    using assms(1,2,4,5,7,8) d unfolding assms(3)
    by (simp add: handlePrompt_gemini_def classify_gemini_def invoke_def Entry_create_def Let_def)
  have s: "scheduledFor doc = None"
    using assms(7)
    by (auto simp: classifiedEntry_gemini_def then_do_def split: sum.splits)
  show ?thesis using d h s by simp
qed

text \<open>Claim C7, at a backend that classifies "call mom" and rejects the date prompt.\<close>
theorem C7_date_failure_absorbed_witness:
  "errors (demo_prompt_req ''call mom'') = []
   \<and> isValidObjectId env_date_down (user_id (demo_prompt_req ''call mom''))
   \<and> complete env_date_down (classifyPrompt_gemini ''call mom'') = Some reply_task
   \<and> extractStructured env_date_down reply_task = Inr parsed_task
   \<and> complete env_date_down (datePrompt (today env_date_down) ''call mom'') = None
   \<and> schema_accepts env_date_down doc_call_mom
   \<and> fst (handlePrompt_gemini env_date_down (demo_prompt_req ''call mom'') empty_world)
        = Ok_data doc_call_mom
   \<and> store (snd (handlePrompt_gemini env_date_down (demo_prompt_req ''call mom'') empty_world))
        = [doc_call_mom]"
proof -
  have 1: "errors (demo_prompt_req ''call mom'') = []" by (simp add: demo_prompt_req_def)
  have 2: "isValidObjectId env_date_down (user_id (demo_prompt_req ''call mom''))" by code_simp
  have 3: "''call mom'' = sanitizeHtml env_date_down (body_input (demo_prompt_req ''call mom''))"
    by (simp add: env_date_down_def demo_env_def demo_prompt_req_def)
  have 4: "complete env_date_down (classifyPrompt_gemini ''call mom'') = Some reply_task" by code_simp
  have 5: "extractStructured env_date_down reply_task = Inr parsed_task" by code_simp
  have 6: "complete env_date_down (datePrompt (today env_date_down) ''call mom'') = None" by code_simp
  have 7: "classifiedEntry_gemini (demo_prompt_req ''call mom'') ''call mom'' parsed_task None
             = Inr doc_call_mom" by code_simp
  have 8: "schema_accepts env_date_down doc_call_mom" by code_simp
  from C7_date_failure_absorbed [OF 1 2 3 4 5 6 7 8, of empty_world]
  show ?thesis using 1 2 4 5 6 8 by (simp add: empty_world_def)
qed

section \<open>Diary synthesis\<close>

lemma diaryEntry_Inr:
  assumes "diaryEntry req parsed d = Inr (text, doc)"
  shows "get_prop parsed ''diaryText'' = Inr text \<and> get_prop parsed ''mood'' = Inr (mood doc)
         \<and> type doc = Some (JStr ''diary'') \<and> content doc = text \<and> summary doc = text
         \<and> tags doc = [''auto-generated'', ''diary''] \<and> scheduledFor doc = Some d
         \<and> userInput doc = extraText req \<and> userId doc = user_id req"
  using assms by (auto simp: diaryEntry_def then_do_def split: sum.splits)

lemma Entry_create_Inr:
  assumes "Entry_create env doc w = (Inr saved, w')"
  shows "saved = doc \<and> store w' = store w @ [doc] \<and> sent w' = sent w"
  using assms by (auto simp: Entry_create_def split: if_splits)

lemma synthesize_gemini_Inr:
  assumes "synthesize_gemini env req date w = (Inr (text, saved), w')"
  shows "\<exists>prompt reply parsed d.
           Date_parse env date = Some d
           \<and> sent w' = sent w @ [prompt] \<and> complete env prompt = Some reply
           \<and> extractStructured env reply = Inr parsed
           \<and> diaryEntry req parsed d = Inr (text, saved)
           \<and> store w' = store w @ [saved]"
proof -
  from assms obtain d where d: "Date_parse env date = Some d"
    by (auto simp: synthesize_gemini_def split: option.splits)
  obtain lo hi where b: "day_bounds_gemini env d = (lo, hi)" by (cases "day_bounds_gemini env d")
  define prompt where "prompt = diaryPrompt_gemini (toDateString env d)
          (entrySummaries env bullet_gemini (Entry_find_day w lo hi (user_id req))) (extraText req)"
  define w1 where "w1 = w\<lparr>sent := sent w @ [prompt]\<rparr>"
  from assms d b obtain reply where r: "complete env prompt = Some reply"
    by (auto simp: synthesize_gemini_def invoke_def Let_def prompt_def split: option.splits)
  from assms d b r obtain parsed where p: "extractStructured env reply = Inr parsed"
    by (auto simp: synthesize_gemini_def invoke_def Let_def prompt_def split: sum.splits)
  from assms d b r p obtain text' doc where e: "diaryEntry req parsed d = Inr (text', doc)"
    by (auto simp: synthesize_gemini_def invoke_def Let_def prompt_def split: sum.splits)
  from assms d b r p e have c: "Entry_create env doc w1 = (Inr saved, w')" and t: "text' = text"
    by (auto simp: synthesize_gemini_def invoke_def Let_def prompt_def w1_def split: sum.splits prod.splits)
  from Entry_create_Inr [OF c] have "saved = doc" "store w' = store w @ [doc]" "sent w' = sent w @ [prompt]"
    by (simp_all add: w1_def)
  with d r p e t show ?thesis by blast
qed

lemma synthesize_groq_Inr:
  assumes "synthesize_groq env req date w = (Inr (text, saved), w')"
  shows "\<exists>prompt reply parsed d.
           Date_parse env date = Some d
           \<and> sent w' = sent w @ [prompt] \<and> complete env prompt = Some reply
           \<and> JSON_parse env reply = Some parsed
           \<and> diaryEntry req parsed d = Inr (text, saved)
           \<and> store w' = store w @ [saved]"
proof -
  from assms obtain d where d: "Date_parse env date = Some d"
    by (auto simp: synthesize_groq_def split: option.splits)
  obtain lo hi where b: "day_bounds_groq env d = (lo, hi)" by (cases "day_bounds_groq env d")
  define prompt where "prompt = diaryPrompt_groq (toDateString env d)
          (entrySummaries env bullet_groq (Entry_find_day w lo hi (user_id req))) (extraText req)"
  define w1 where "w1 = w\<lparr>sent := sent w @ [prompt]\<rparr>"
  from assms d b obtain reply where r: "complete env prompt = Some reply"
    by (auto simp: synthesize_groq_def callGroq_def invoke_def Let_def prompt_def split: option.splits)
  from assms d b r obtain parsed where p: "JSON_parse env reply = Some parsed"
    by (auto simp: synthesize_groq_def callGroq_def invoke_def Let_def prompt_def split: option.splits)
  from assms d b r p obtain text' doc where e: "diaryEntry req parsed d = Inr (text', doc)"
    by (auto simp: synthesize_groq_def callGroq_def invoke_def Let_def prompt_def split: sum.splits)
  from assms d b r p e have c: "Entry_create env doc w1 = (Inr saved, w')" and t: "text' = text"
    by (auto simp: synthesize_groq_def callGroq_def invoke_def Let_def prompt_def w1_def split: sum.splits prod.splits)
  from Entry_create_Inr [OF c] have "saved = doc" "store w' = store w @ [doc]" "sent w' = sent w @ [prompt]"
    by (simp_all add: w1_def)
  with d r p e t show ?thesis by blast
qed

lemma generateDiaryEntry_gemini_Ok:
  assumes "fst (generateDiaryEntry_gemini env req w) = Ok_diary text saved"
  shows "\<exists>date. body_date req = Some date
           \<and> synthesize_gemini env req date w
               = (Inr (text, saved), snd (generateDiaryEntry_gemini env req w))"
  using assms
  by (auto simp: generateDiaryEntry_gemini_def split: if_splits prod.splits sum.splits option.splits)

lemma generateDiaryEntry_groq_Ok:
  assumes "fst (generateDiaryEntry_groq env req w) = Ok_diary text saved"
  shows "\<exists>date. body_date req = Some date
           \<and> synthesize_groq env req date w
               = (Inr (text, saved), snd (generateDiaryEntry_groq env req w))"
  using assms
  by (auto simp: generateDiaryEntry_groq_def split: if_splits prod.splits sum.splits option.splits)

text \<open>
  Claim C9. When \<^verbatim>\<open>generateDiaryEntry\<close> answers with success, one prompt was sent, the
  structured object was extracted from its reply, and the stored Entry has the type
  "diary", content and summary both the \<open>diaryText\<close> of that object, the tags
  "auto-generated" and "diary", \<open>scheduledFor\<close> the date of the request, the mood of
  the object and \<open>userInput\<close> the extra text of the request; the response carries the
  \<open>diaryText\<close> and the stored Entry, which is the one record added to the
  collection. So for both variants.
\<close>
theorem C9_diary_entry_fields:
  "(fst (generateDiaryEntry_gemini env req w) = Ok_diary text saved \<longrightarrow>
      (\<exists>prompt reply parsed date d.
          sent (snd (generateDiaryEntry_gemini env req w)) = sent w @ [prompt]
          \<and> complete env prompt = Some reply
          \<and> extractStructured env reply = Inr parsed
          \<and> body_date req = Some date \<and> Date_parse env date = Some d
          \<and> get_prop parsed ''diaryText'' = Inr text
          \<and> type saved = Some (JStr ''diary'') \<and> content saved = text \<and> summary saved = text
          \<and> tags saved = [''auto-generated'', ''diary''] \<and> scheduledFor saved = Some d
          \<and> get_prop parsed ''mood'' = Inr (mood saved) \<and> userInput saved = extraText req
          \<and> store (snd (generateDiaryEntry_gemini env req w)) = store w @ [saved]))
   \<and> (fst (generateDiaryEntry_groq env req w) = Ok_diary text saved \<longrightarrow>
      (\<exists>prompt reply parsed date d.
          sent (snd (generateDiaryEntry_groq env req w)) = sent w @ [prompt]
          \<and> complete env prompt = Some reply
          \<and> JSON_parse env reply = Some parsed
          \<and> body_date req = Some date \<and> Date_parse env date = Some d
          \<and> get_prop parsed ''diaryText'' = Inr text
          \<and> type saved = Some (JStr ''diary'') \<and> content saved = text \<and> summary saved = text
          \<and> tags saved = [''auto-generated'', ''diary''] \<and> scheduledFor saved = Some d
          \<and> get_prop parsed ''mood'' = Inr (mood saved) \<and> userInput saved = extraText req
          \<and> store (snd (generateDiaryEntry_groq env req w)) = store w @ [saved]))"
proof (intro conjI impI)
  assume a: "fst (generateDiaryEntry_gemini env req w) = Ok_diary text saved"
  from generateDiaryEntry_gemini_Ok [OF a] obtain date where
    b: "body_date req = Some date"
    and c: "synthesize_gemini env req date w
              = (Inr (text, saved), snd (generateDiaryEntry_gemini env req w))"
    by blast
  from synthesize_gemini_Inr [OF c]
  obtain prompt reply parsed d where
    *: "Date_parse env date = Some d"
       "sent (snd (generateDiaryEntry_gemini env req w)) = sent w @ [prompt]"
       "complete env prompt = Some reply" "extractStructured env reply = Inr parsed"
       "diaryEntry req parsed d = Inr (text, saved)"
       "store (snd (generateDiaryEntry_gemini env req w)) = store w @ [saved]"
    by blast
  from diaryEntry_Inr [OF *(5)] * b show "\<exists>prompt reply parsed date d.
          sent (snd (generateDiaryEntry_gemini env req w)) = sent w @ [prompt]
          \<and> complete env prompt = Some reply
          \<and> extractStructured env reply = Inr parsed
          \<and> body_date req = Some date \<and> Date_parse env date = Some d
          \<and> get_prop parsed ''diaryText'' = Inr text
          \<and> type saved = Some (JStr ''diary'') \<and> content saved = text \<and> summary saved = text
          \<and> tags saved = [''auto-generated'', ''diary''] \<and> scheduledFor saved = Some d
          \<and> get_prop parsed ''mood'' = Inr (mood saved) \<and> userInput saved = extraText req
          \<and> store (snd (generateDiaryEntry_gemini env req w)) = store w @ [saved]"
    by blast
next
  assume a: "fst (generateDiaryEntry_groq env req w) = Ok_diary text saved"
  from generateDiaryEntry_groq_Ok [OF a] obtain date where
    b: "body_date req = Some date"
    and c: "synthesize_groq env req date w
              = (Inr (text, saved), snd (generateDiaryEntry_groq env req w))"
    by blast
  from synthesize_groq_Inr [OF c]
  obtain prompt reply parsed d where
    *: "Date_parse env date = Some d"
       "sent (snd (generateDiaryEntry_groq env req w)) = sent w @ [prompt]"
       "complete env prompt = Some reply" "JSON_parse env reply = Some parsed"
       "diaryEntry req parsed d = Inr (text, saved)"
       "store (snd (generateDiaryEntry_groq env req w)) = store w @ [saved]"
    by blast
  from diaryEntry_Inr [OF *(5)] * b show "\<exists>prompt reply parsed date d.
          sent (snd (generateDiaryEntry_groq env req w)) = sent w @ [prompt]
          \<and> complete env prompt = Some reply
          \<and> JSON_parse env reply = Some parsed
          \<and> body_date req = Some date \<and> Date_parse env date = Some d
          \<and> get_prop parsed ''diaryText'' = Inr text
          \<and> type saved = Some (JStr ''diary'') \<and> content saved = text \<and> summary saved = text
          \<and> tags saved = [''auto-generated'', ''diary''] \<and> scheduledFor saved = Some d
          \<and> get_prop parsed ''mood'' = Inr (mood saved) \<and> userInput saved = extraText req
          \<and> store (snd (generateDiaryEntry_groq env req w)) = store w @ [saved]"
    by blast
qed

text \<open>Claim C9, at a backend that answers with a diary object, for both variants.\<close>
theorem C9_diary_entry_fields_witness:
  "fst (generateDiaryEntry_gemini env_diary (demo_diary_req (Some ''Went for a run.'')) empty_world)
     = Ok_diary (Some (JStr ''A calm day.'')) (diary_saved (Some ''Went for a run.''))
   \<and> fst (generateDiaryEntry_groq env_diary (demo_diary_req (Some ''Went for a run.'')) empty_world)
     = Ok_diary (Some (JStr ''A calm day.'')) (diary_saved (Some ''Went for a run.''))
   \<and> store (snd (generateDiaryEntry_gemini env_diary (demo_diary_req (Some ''Went for a run.''))
               empty_world)) = [diary_saved (Some ''Went for a run.'')]
   \<and> store (snd (generateDiaryEntry_groq env_diary (demo_diary_req (Some ''Went for a run.''))
               empty_world)) = [diary_saved (Some ''Went for a run.'')]"
proof -
  have g: "fst (generateDiaryEntry_gemini env_diary (demo_diary_req (Some ''Went for a run.'')) empty_world)
     = Ok_diary (Some (JStr ''A calm day.'')) (diary_saved (Some ''Went for a run.''))"
    by code_simp
  have q: "fst (generateDiaryEntry_groq env_diary (demo_diary_req (Some ''Went for a run.'')) empty_world)
     = Ok_diary (Some (JStr ''A calm day.'')) (diary_saved (Some ''Went for a run.''))"
    by code_simp
  have e: "store empty_world = []" by (simp add: empty_world_def)
  from C9_diary_entry_fields [of env_diary "demo_diary_req (Some ''Went for a run.'')" empty_world
      "Some (JStr ''A calm day.'')" "diary_saved (Some ''Went for a run.'')"] g q
  have "store (snd (generateDiaryEntry_gemini env_diary (demo_diary_req (Some ''Went for a run.''))
               empty_world)) = store empty_world @ [diary_saved (Some ''Went for a run.'')]
      \<and> store (snd (generateDiaryEntry_groq env_diary (demo_diary_req (Some ''Went for a run.''))
               empty_world)) = store empty_world @ [diary_saved (Some ''Went for a run.'')]"
    by blast
  with g q e show ?thesis by simp
qed







lemma generateDiaryEntry_gemini_malformed:
  assumes "user_id req \<noteq> []" and "body_date req = Some date" and "date \<noteq> []"
    and "Date_parse env date = Some d"
    and "complete env (diaryPrompt_gemini (toDateString env d)
                        (entrySummaries env bullet_gemini
                           (Entry_find_day w (fst (day_bounds_gemini env d))
                              (snd (day_bounds_gemini env d)) (user_id req)))
                        (extraText req)) = Some reply"
    and "\<not> contains_json_object env reply"
  shows "fst (generateDiaryEntry_gemini env req w) = Fail 500 ''Failed to generate diary entry''
         \<and> store (snd (generateDiaryEntry_gemini env req w)) = store w"
proof -
  from no_json_object_malformed [OF assms(6)] obtain err where
    "extractStructured env reply = Inl err" ..
  with assms(1-5) show ?thesis
    by (cases "day_bounds_gemini env d")
       (simp add: generateDiaryEntry_gemini_def synthesize_gemini_def invoke_def Let_def)
qed







section \<open>Defaults of the classified Entry\<close>

lemma classifiedEntry_gemini_fields:
  assumes "classifiedEntry_gemini req input parsed d = Inr e"
  shows "get_prop parsed ''summary'' = Inr (summary e)
         \<and> (\<exists>t. get_prop parsed ''type'' = Inr t
                \<and> type e = (if truthy t then t else Some (JStr ''note'')))
         \<and> (\<exists>ts. get_prop parsed ''tasks'' = Inr ts
                \<and> tasks e = Some (case ts of Some (JArr xs) \<Rightarrow> xs | _ \<Rightarrow> []))
         \<and> content e = Some (JStr input) \<and> tags e = [] \<and> scheduledFor e = d"
  using assms
  by (auto simp: classifiedEntry_gemini_def then_do_def or_else_def array_or_empty_def
           split: sum.splits)

lemma classifiedEntry_groq_fields:
  assumes "classifiedEntry_groq req input parsed d = Inr e"
  shows "(\<exists>s. get_prop parsed ''summary'' = Inr s
                \<and> summary e = (if truthy s then s else Some (JStr [])))
         \<and> (\<exists>t. get_prop parsed ''type'' = Inr t
                \<and> type e = (if truthy t then t else Some (JStr ''note'')))
         \<and> (\<exists>ts. get_prop parsed ''tasks'' = Inr ts
                \<and> tasks e = Some (case ts of Some (JArr xs) \<Rightarrow> xs | _ \<Rightarrow> []))
         \<and> content e = Some (JStr input) \<and> tags e = [] \<and> scheduledFor e = d"
  using assms
  by (auto simp: classifiedEntry_groq_def then_do_def or_else_def array_or_empty_def
           split: sum.splits)

text \<open>
  Claim C2 at the classification reply \<^verbatim>\<open>{"type":"task"}\<close>, which has no summary and no
  tasks: \<^verbatim>\<open>handlePrompt\<close> of the Gemini-backed variant stores an Entry whose summary is
  \<^verbatim>\<open>undefined\<close>, where the Groq-backed variant stores the empty string. The tasks
  default to the empty sequence in both.
\<close>
theorem C2_summary_not_defaulted:
  "JSON_parse env_bare reply_bare = Some parsed_bare
   \<and> get_prop parsed_bare ''summary'' = Inr None
   \<and> map summary (store (snd (handlePrompt_gemini env_bare (demo_prompt_req ''call mom'')
                                 empty_world))) = [None]
   \<and> map summary (store (snd (handlePrompt_groq env_bare (demo_prompt_req ''call mom'')
                                 empty_world))) = [Some (JStr [])]
   \<and> map tasks (store (snd (handlePrompt_gemini env_bare (demo_prompt_req ''call mom'')
                                 empty_world))) = [Some []]"
  by code_simp

section \<open>Day buckets\<close>

lemma setHours_east:
  assumes "0 \<le> y" and "y < msPerDay"
  shows "setHours env (k * msPerDay - tzOffset env + y) h m s ms
           = k * msPerDay - tzOffset env + (h * 3600000 + m * 60000 + s * 1000 + ms)"
proof -
  have "(k * msPerDay + y) div msPerDay = k"
    using assms by (simp add: msPerDay_def div_pos_pos_trivial)
  then show ?thesis by (simp add: setHours_def Let_def)
qed

lemma day_bounds_east_of_utc:
  assumes "0 \<le> tzOffset env" and "tzOffset env < msPerDay"
  shows "day_bounds_gemini env (k * msPerDay)
           = (k * msPerDay - tzOffset env, k * msPerDay - tzOffset env + (msPerDay - 1))"
    and "day_bounds_groq env (k * msPerDay)
           = (k * msPerDay - tzOffset env, k * msPerDay - tzOffset env + (msPerDay - 1))"
proof -
  have a: "setHours env (k * msPerDay) 0 0 0 0 = k * msPerDay - tzOffset env"
    using setHours_east [OF assms, of env k 0 0 0 0] by simp
  have b: "setHours env (k * msPerDay) 23 59 59 999 = k * msPerDay - tzOffset env + (msPerDay - 1)"
    using setHours_east [OF assms, of env k 23 59 59 999] by (simp add: msPerDay_def)
  have c: "setHours env (k * msPerDay - tzOffset env) 23 59 59 999
             = k * msPerDay - tzOffset env + (msPerDay - 1)"
    using setHours_east [of 0 env k 23 59 59 999] by (simp add: msPerDay_def)
  show "day_bounds_gemini env (k * msPerDay)
           = (k * msPerDay - tzOffset env, k * msPerDay - tzOffset env + (msPerDay - 1))"
    using a c by (simp add: day_bounds_gemini_def Let_def)
  show "day_bounds_groq env (k * msPerDay)
           = (k * msPerDay - tzOffset env, k * msPerDay - tzOffset env + (msPerDay - 1))"
    using a b by (simp add: day_bounds_groq_def)
qed

lemma day_bucket_east_of_utc:
  assumes "0 \<le> tzOffset env" and "tzOffset env < msPerDay"
    and "Date_parse env date = Some (k * msPerDay)" and "date \<noteq> []"
  shows "fst (getEntriesByDate_gemini env \<lparr>user_id = uid, user_name = n, query_date = Some date\<rparr> w)
           = Ok_list (filter (\<lambda>e. (case scheduledFor e of None \<Rightarrow> False
                                     | Some t \<Rightarrow> (t + tzOffset env) div msPerDay = k)
                                  \<and> userId e = uid) (store w))"
    and "fst (getEntriesByDate_groq env \<lparr>user_id = uid, user_name = n, query_date = Some date\<rparr> w)
           = Ok_list (filter (\<lambda>e. (case scheduledFor e of None \<Rightarrow> False
                                     | Some t \<Rightarrow> (t + tzOffset env) div msPerDay = k)
                                  \<and> userId e = uid) (store w))"
proof -
  have b: "\<And>t. (k * msPerDay - tzOffset env \<le> t \<and> t \<le> k * msPerDay - tzOffset env + (msPerDay - 1))
            \<longleftrightarrow> (t + tzOffset env) div msPerDay = k"
  proof -
    fix t
    have "(t + tzOffset env) div msPerDay = k
            \<longleftrightarrow> k * msPerDay \<le> t + tzOffset env \<and> t + tzOffset env < (k + 1) * msPerDay"
      by (simp add: msPerDay_def) linarith
    then show "(k * msPerDay - tzOffset env \<le> t \<and> t \<le> k * msPerDay - tzOffset env + (msPerDay - 1))
            \<longleftrightarrow> (t + tzOffset env) div msPerDay = k"
      by (simp add: algebra_simps) linarith
  qed
  show "fst (getEntriesByDate_gemini env \<lparr>user_id = uid, user_name = n, query_date = Some date\<rparr> w)
           = Ok_list (filter (\<lambda>e. (case scheduledFor e of None \<Rightarrow> False
                                     | Some t \<Rightarrow> (t + tzOffset env) div msPerDay = k)
                                  \<and> userId e = uid) (store w))"
    using b assms(3,4) day_bounds_east_of_utc(1) [OF assms(1,2), of k]
    by (simp add: getEntriesByDate_gemini_def Entry_find_day_def split: option.splits
          cong: filter_cong option.case_cong)
  show "fst (getEntriesByDate_groq env \<lparr>user_id = uid, user_name = n, query_date = Some date\<rparr> w)
           = Ok_list (filter (\<lambda>e. (case scheduledFor e of None \<Rightarrow> False
                                     | Some t \<Rightarrow> (t + tzOffset env) div msPerDay = k)
                                  \<and> userId e = uid) (store w))"
    using b assms(3,4) day_bounds_east_of_utc(2) [OF assms(1,2), of k]
    by (simp add: getEntriesByDate_groq_def Entry_find_day_def split: option.splits
          cong: filter_cong option.case_cong)
qed

text \<open>
  Claim C8 on a server five hours west of UTC. The date string "2024-05-10" is UTC
  midnight, which is the evening of May 9 there, and \<^verbatim>\<open>setHours\<close> makes the bounds of
  May 9: the Entry scheduled for 14:00 of May 10 on the server's clock is not returned
  for "2024-05-10", and is returned for "2024-05-11". So for both variants.
\<close>
theorem C8_day_bucket_west_of_utc:
  "Date_parse env_west ''2024-05-10'' = Some 1715299200000
   \<and> day_bounds_groq env_west 1715299200000 = (1715230800000, 1715317199999)
   \<and> scheduledFor entry_afternoon = Some 1715367600000
   \<and> fst (getEntriesByDate_gemini env_west (demo_date_req ''2024-05-10'') world_afternoon)
        = Ok_list []
   \<and> fst (getEntriesByDate_groq env_west (demo_date_req ''2024-05-10'') world_afternoon)
        = Ok_list []
   \<and> fst (getEntriesByDate_gemini env_west (demo_date_req ''2024-05-11'') world_afternoon)
        = Ok_list [entry_afternoon]
   \<and> fst (getEntriesByDate_groq env_west (demo_date_req ''2024-05-11'') world_afternoon)
        = Ok_list [entry_afternoon]"
  by code_simp

section \<open>The two variants compared\<close>

lemma brace_delimited_match:
  assumes "brace_delimited r"
  shows "match r json_rx = Some r"
proof -
  from assms have l: "2 \<le> length r" and h: "hd r = CHR ''{''" and e: "last r = CHR ''}''"
    by (simp_all add: brace_delimited_def)
  from l obtain c t where r: "r = c # t" and t: "t \<noteq> []" by (cases r) (auto simp: Suc_le_eq)
  from t obtain mid d where t': "t = mid @ [d]" by (cases t rule: rev_cases) auto
  from r t' h e have "r = CHR ''{'' # mid @ CHR ''}'' # []" by simp
  with match_json_rx_span [of "[]" "[]" mid] show ?thesis by simp
qed

lemma classifiedEntry_swap:
  assumes "summary_given parsed"
  shows "classifiedEntry_groq req input parsed d =
           (case classifiedEntry_gemini req input parsed d of
              Inl err \<Rightarrow> Inl err | Inr doc \<Rightarrow> Inr (swap_name_keys doc))"
  using assms
  by (cases parsed)
     (auto simp: classifiedEntry_groq_def classifiedEntry_gemini_def then_do_def summary_given_def
                 or_else_def swap_name_keys_def)

lemma spec_fields_swap [simp]: "spec_fields (swap_name_keys e) = spec_fields e"
  by (simp add: spec_fields_def swap_name_keys_def)

lemma classify_agree:
  assumes same: "complete env (classifyPrompt_gemini input) = complete env (classifyPrompt_groq input)"
    and bare: "\<forall>reply. complete env (classifyPrompt_groq input) = Some reply \<longrightarrow> brace_delimited reply"
    and summ: "\<forall>reply parsed. complete env (classifyPrompt_groq input) = Some reply
                 \<longrightarrow> JSON_parse env reply = Some parsed \<longrightarrow> summary_given parsed"
    and dates: "fst (extractDateFromInput env input w) = extractDate env input"
    and schema: "\<forall>doc. schema_accepts env (swap_name_keys doc) = schema_accepts env doc"
  shows "(\<exists>err1 err2. fst (classify_gemini env req input w) = Inl err1
            \<and> fst (classify_groq env req input w) = Inl err2
            \<and> store (snd (classify_gemini env req input w)) = store w
            \<and> store (snd (classify_groq env req input w)) = store w)
       \<or> (\<exists>doc. fst (classify_gemini env req input w) = Inr doc
            \<and> fst (classify_groq env req input w) = Inr (swap_name_keys doc)
            \<and> store (snd (classify_gemini env req input w)) = store w @ [doc]
            \<and> store (snd (classify_groq env req input w)) = store w @ [swap_name_keys doc])"
proof (cases "complete env (classifyPrompt_groq input)")
  case None
  with same show ?thesis
    by (simp add: classify_gemini_def classify_groq_def callGroq_def invoke_def)
next
  case (Some reply)
  with bare have m: "match reply json_rx = Some reply" by (simp add: brace_delimited_match)
  show ?thesis
  proof (cases "JSON_parse env reply")
    case None
    with Some same m show ?thesis
      by (simp add: classify_gemini_def classify_groq_def callGroq_def invoke_def
            extractStructured_def)
  next
    case parsed: (Some parsed)
    from summ Some parsed have sg: "summary_given parsed" by blast
    define w1 where "w1 = w\<lparr>sent := sent w @ [classifyPrompt_gemini input]\<rparr>"
    obtain sd w2 where dg: "extractDateFromInput env input w1 = (sd, w2)"
      by (cases "extractDateFromInput env input w1")
    have sd: "sd = extractDate env input"
      using dg dates extractDateFromInput_fst [of env input w1 w] by simp
    have st: "store w2 = store w"
      using extractDateFromInput_store [of env input w1] dg by (simp add: w1_def)
    have g: "classify_gemini env req input w =
               (case classifiedEntry_gemini req input parsed sd of
                  Inl err \<Rightarrow> (Inl err, w2) | Inr doc \<Rightarrow> Entry_create env doc w2)"
      using Some same m parsed dg
      by (simp add: classify_gemini_def invoke_def extractStructured_def w1_def)
    have q: "classify_groq env req input w =
               (case classifiedEntry_gemini req input parsed sd of
                  Inl err \<Rightarrow> (Inl err, w\<lparr>sent := sent w @ [classifyPrompt_groq input]\<rparr>)
                | Inr doc \<Rightarrow> Entry_create env (swap_name_keys doc)
                               (w\<lparr>sent := sent w @ [classifyPrompt_groq input]\<rparr>))"
      using Some parsed sd classifiedEntry_swap [OF sg, of req input sd]
      by (simp add: classify_groq_def callGroq_def invoke_def Let_def split: sum.splits)
    show ?thesis
    proof (cases "classifiedEntry_gemini req input parsed sd")
      case (Inl err)
      with g q st show ?thesis by simp
    next
      case (Inr doc)
      with g q st schema show ?thesis by (simp add: Entry_create_def)
    qed
  qed
qed

text \<open>
  Claim C4, as the code has it. The two variants of \<^verbatim>\<open>handlePrompt\<close> answer alike (the
  same failure, or records with the same fields of the data model) and leave the same
  fields stored, when: the backend gives their two classification prompts the same reply
  or rejects both; that reply is brace-delimited, with no prose around the object; the
  parsed object has a summary that is truthy or the empty string; the two date resolvers
  return the same date for the text; and the Entry model accepts a document whichever of
  the keys \<open>Username\<close> and \<open>username\<close> holds the user's name.
\<close>
theorem C4_variants_agree:
  assumes "input = sanitizeHtml env (body_input req)"
    and "complete env (classifyPrompt_gemini input) = complete env (classifyPrompt_groq input)"
    and "\<forall>reply. complete env (classifyPrompt_groq input) = Some reply \<longrightarrow> brace_delimited reply"
    and "\<forall>reply parsed. complete env (classifyPrompt_groq input) = Some reply
                 \<longrightarrow> JSON_parse env reply = Some parsed \<longrightarrow> summary_given parsed"
    and "fst (extractDateFromInput env input w) = extractDate env input"
    and "\<forall>doc. schema_accepts env (swap_name_keys doc) = schema_accepts env doc"
  shows "observable (fst (handlePrompt_gemini env req w))
           = observable (fst (handlePrompt_groq env req w))
         \<and> map spec_fields (store (snd (handlePrompt_gemini env req w)))
           = map spec_fields (store (snd (handlePrompt_groq env req w)))"
proof (cases "errors req \<noteq> [] \<or> \<not> isValidObjectId env (user_id req)")
  case True
  then show ?thesis by (auto simp: handlePrompt_gemini_def handlePrompt_groq_def Let_def)
next
  case False
  then have hg: "handlePrompt_gemini env req w =
                   (case classify_gemini env req input w of
                      (Inr entry, w') \<Rightarrow> (Ok_data entry, w')
                    | (Inl err, w') \<Rightarrow> (Fail 500 ''Failed to process prompt'', w'))"
    and hq: "handlePrompt_groq env req w =
                   (case classify_groq env req input w of
                      (Inr entry, w') \<Rightarrow> (Ok_data entry, w')
                    | (Inl err, w') \<Rightarrow> (Fail 500 ''Failed to process prompt'', w'))"
    by (simp_all add: handlePrompt_gemini_def handlePrompt_groq_def Let_def assms(1))
  from classify_agree [OF assms(2-6), of req]
  show ?thesis unfolding hg hq by (auto simp: split_beta)
qed

text \<open>
  Claim C4, at a backend that classifies "call mom" with a JSON object and rejects the
  date prompt, where the date parser of the second variant finds no date either.
\<close>
theorem C4_variants_agree_witness:
  "complete env_date_down (classifyPrompt_gemini ''call mom'') = Some reply_task
   \<and> complete env_date_down (classifyPrompt_groq ''call mom'') = Some reply_task
   \<and> brace_delimited reply_task
   \<and> JSON_parse env_date_down reply_task = Some parsed_task
   \<and> summary_given parsed_task
   \<and> fst (extractDateFromInput env_date_down ''call mom'' empty_world) = None
   \<and> extractDate env_date_down ''call mom'' = None
   \<and> observable (fst (handlePrompt_gemini env_date_down (demo_prompt_req ''call mom'') empty_world))
       = Inr [spec_fields doc_call_mom]
   \<and> observable (fst (handlePrompt_groq env_date_down (demo_prompt_req ''call mom'') empty_world))
       = Inr [spec_fields doc_call_mom]
   \<and> map spec_fields (store (snd (handlePrompt_gemini env_date_down (demo_prompt_req ''call mom'')
                                     empty_world)))
       = map spec_fields (store (snd (handlePrompt_groq env_date_down (demo_prompt_req ''call mom'')
                                     empty_world)))"
proof -
  have 1: "''call mom'' = sanitizeHtml env_date_down (body_input (demo_prompt_req ''call mom''))"
    by (simp add: env_date_down_def demo_env_def demo_prompt_req_def)
  have cg: "complete env_date_down (classifyPrompt_gemini ''call mom'') = Some reply_task" by code_simp
  have cq: "complete env_date_down (classifyPrompt_groq ''call mom'') = Some reply_task" by code_simp
  have b: "brace_delimited reply_task" by code_simp
  have p: "JSON_parse env_date_down reply_task = Some parsed_task" by code_simp
  have s: "summary_given parsed_task" by code_simp
  have dg: "fst (extractDateFromInput env_date_down ''call mom'' empty_world) = None" by code_simp
  have dq: "extractDate env_date_down ''call mom'' = None" by code_simp
  have 2: "complete env_date_down (classifyPrompt_gemini ''call mom'')
             = complete env_date_down (classifyPrompt_groq ''call mom'')"
    by (simp add: cg cq)
  have 3: "\<forall>reply. complete env_date_down (classifyPrompt_groq ''call mom'') = Some reply
             \<longrightarrow> brace_delimited reply"
    by (simp add: cq b)
  have 4: "\<forall>reply parsed. complete env_date_down (classifyPrompt_groq ''call mom'') = Some reply
             \<longrightarrow> JSON_parse env_date_down reply = Some parsed \<longrightarrow> summary_given parsed"
    using p s by (simp add: cq)
  have 5: "fst (extractDateFromInput env_date_down ''call mom'' empty_world)
             = extractDate env_date_down ''call mom''"
    by (simp add: dg dq)
  have 6: "\<forall>doc. schema_accepts env_date_down (swap_name_keys doc) = schema_accepts env_date_down doc"
    by (simp add: env_date_down_def demo_env_def)
  have g: "observable (fst (handlePrompt_gemini env_date_down (demo_prompt_req ''call mom'') empty_world))
       = Inr [spec_fields doc_call_mom]" by code_simp
  from C4_variants_agree [OF 1 2 3 4 5 6]
  show ?thesis using cg cq b p s dg dq g by simp
qed

text \<open>
  Claim C4 as stated fails, with the same backend replies for both variants. On a reply
  with prose before the object the first variant stores an Entry and the second answers
  500. On a reply with no summary the first stores \<^verbatim>\<open>undefined\<close> and the second the
  empty string. When the backend answers the date prompt with a date, the first stores it
  and the second, whose date parser reads the text alone, stores none.
\<close>
theorem C4_counterexample:
  "fst (handlePrompt_gemini env_prose (demo_prompt_req ''call mom'') empty_world)
     = Ok_data doc_call_mom
   \<and> fst (handlePrompt_groq env_prose (demo_prompt_req ''call mom'') empty_world)
     = Fail 500 ''Failed to process prompt''
   \<and> map summary (store (snd (handlePrompt_gemini env_bare (demo_prompt_req ''call mom'')
                                 empty_world))) = [None]
   \<and> map summary (store (snd (handlePrompt_groq env_bare (demo_prompt_req ''call mom'')
                                 empty_world))) = [Some (JStr [])]
   \<and> map scheduledFor (store (snd (handlePrompt_gemini env_date_given (demo_prompt_req ''call mom'')
                                 empty_world))) = [Some 1715299200000]
   \<and> map scheduledFor (store (snd (handlePrompt_groq env_date_given (demo_prompt_req ''call mom'')
                                 empty_world))) = [None]"
  by code_simp

end
